theory Spec2Isabelle
  imports Main "HOL-Library.Word"
begin

unbundle bit_operations_syntax

section \<open>The serial line and the pull-up pin (onewireuart.c, sleep.c)\<close>

type_synonym u8 = "8 word"

text \<open>
  The statics of onewireuart.c (\<open>gpioPullupFd\<close>, \<open>uartFd\<close>, \<open>uartId\<close>, \<open>uartBaud\<close>)
  together with the part of the operating system the file talks to:
  \<^item> \<open>rx_script\<close>: the outcome of each coming call of \<open>read(uartFd, buf, 1)\<close>, in order:
    \<open>Some b\<close> when one byte \<open>b\<close> is delivered, \<open>None\<close> when the call delivers nothing;
    once the script is used up no byte arrives any more;
  \<^item> \<open>read_calls\<close>: how many times \<open>read\<close> has been called;
  \<^item> \<open>tx_log\<close>: every byte handed to \<open>write(uartFd, buf, 1)\<close>, with the baud rate in
    force at that moment;
  \<^item> \<open>write_script\<close>, \<open>close_script\<close>, \<open>open_script\<close>: the values returned by the coming
    calls of \<open>write\<close>, \<open>close\<close> and \<open>UART_Open\<close>; a used-up script answers \<open>1\<close>, \<open>0\<close>
    and \<open>-1\<close>;
  \<^item> \<open>pullup_high\<close>: the level last requested on the pull-up pin by \<open>GPIO_SetValue\<close>;
  \<^item> \<open>slept_ns\<close>: the time handed to \<open>nanosleep\<close> so far, in nanoseconds.
\<close>

record uart_state =
  gpioPullupFd :: int
  uartFd :: int
  uartId :: int
  uartBaud :: int
  rx_script :: "u8 option list"
  read_calls :: nat
  tx_log :: "(int \<times> u8) list"
  write_script :: "int list"
  close_script :: "int list"
  open_script :: "int list"
  pullup_high :: bool
  slept_ns :: int

definition sys_read :: "uart_state \<Rightarrow> u8 option \<times> uart_state" where
  "sys_read u =
     (case rx_script u of
        [] \<Rightarrow> (None, u\<lparr>read_calls := Suc (read_calls u)\<rparr>)
      | x # xs \<Rightarrow> (x, u\<lparr>rx_script := xs, read_calls := Suc (read_calls u)\<rparr>))"

definition sys_write :: "u8 \<Rightarrow> uart_state \<Rightarrow> int \<times> uart_state" where
  "sys_write b u =
     (case write_script u of
        [] \<Rightarrow> (1, u\<lparr>tx_log := tx_log u @ [(uartBaud u, b)]\<rparr>)
      | r # rs \<Rightarrow> (r, u\<lparr>tx_log := tx_log u @ [(uartBaud u, b)], write_script := rs\<rparr>))"

definition sys_close :: "uart_state \<Rightarrow> int \<times> uart_state" where
  "sys_close u =
     (case close_script u of
        [] \<Rightarrow> (0, u)
      | r # rs \<Rightarrow> (r, u\<lparr>close_script := rs\<rparr>))"

definition UART_Open :: "uart_state \<Rightarrow> int \<times> uart_state" where
  "UART_Open u =
     (case open_script u of
        [] \<Rightarrow> (- 1, u)
      | r # rs \<Rightarrow> (r, u\<lparr>open_script := rs\<rparr>))"

text \<open>sleep.c: \<open>SleepMilli\<close> splits the duration into seconds and nanoseconds.\<close>

definition SleepMilli :: "int \<Rightarrow> uart_state \<Rightarrow> uart_state" where
  "SleepMilli durationMs u =
     (let durationSec = sgn durationMs * (\<bar>durationMs\<bar> div 1000);
          restMs = durationMs - durationSec * 1000
      in u\<lparr>slept_ns := slept_ns u + durationSec * 1000000000 + restMs * 1000000\<rparr>)"

definition OneWireDisableStrongPullupGpio :: "uart_state \<Rightarrow> uart_state" where
  "OneWireDisableStrongPullupGpio u = u\<lparr>pullup_high := False\<rparr>"

definition OneWireEnableStrongPullupGpio :: "uart_state \<Rightarrow> uart_state" where
  "OneWireEnableStrongPullupGpio u = u\<lparr>pullup_high := True\<rparr>"

text \<open>
  \<open>OneWireUartSetSpeed\<close>: fails when no port was set, is a no-op at the rate already
  in force, refuses every rate but 9600 and 115200, and otherwise closes the port and
  opens it again at the new rate.
\<close>

definition OneWireUartSetSpeed :: "int \<Rightarrow> uart_state \<Rightarrow> bool \<times> uart_state" where
  "OneWireUartSetSpeed baud u =
     (if uartId u = - 1 then (False, u)
      else if uartBaud u = baud then (True, u)
      else if baud \<noteq> 9600 \<and> baud \<noteq> 115200 then (False, u)
      else
        let (closed_ok, u1) =
              (if uartFd u \<ge> 0 then
                 (let (result, uc) = sys_close u
                  in (result = 0, uc\<lparr>uartFd := - 1, uartBaud := 0\<rparr>))
               else (True, u))
        in if \<not> closed_ok then (False, u1)
           else
             let (fd, u2) = UART_Open u1;
                 u3 = u2\<lparr>uartFd := fd\<rparr>
             in if fd = - 1 then (False, u3)
                else (True, u3\<lparr>uartBaud := baud\<rparr>))"

definition OneWireUartWriteByte :: "u8 \<Rightarrow> bool \<Rightarrow> uart_state \<Rightarrow> bool \<times> uart_state" where
  "OneWireUartWriteByte data enableStrongPullup u =
     (let u1 = OneWireDisableStrongPullupGpio u;
          (bytesSent, u2) = sys_write data u1;
          u3 = (if enableStrongPullup then OneWireEnableStrongPullupGpio u2 else u2)
      in (bytesSent = 1, u3))"

text \<open>
  The polling loop of \<open>OneWireUartReadByte\<close>:
  \<^verbatim>\<open>while (data == -1 && retryCount--) { ... }\<close>.
  The counter starts at 100 and is only decremented while it is not zero, so it is a
  natural number here; the value \<open>-1\<close> it takes when the loop gives up is never read.
  With the counter at 0 the loop ends whatever \<open>data\<close> is.
\<close>

fun read_loop :: "nat \<Rightarrow> int \<Rightarrow> uart_state \<Rightarrow> int \<times> uart_state" where
  "read_loop 0 data u = (data, u)"
| "read_loop (Suc retryCount) data u =
     (if data = - 1 then
        (case sys_read u of
           (Some b, u1) \<Rightarrow> read_loop retryCount (uint b) u1
         | (None, u1) \<Rightarrow> read_loop retryCount data (SleepMilli 1 u1))
      else (data, u))"

definition OneWireUartReadByte :: "uart_state \<Rightarrow> int \<times> uart_state" where
  "OneWireUartReadByte u = read_loop 100 (- 1) u"

text \<open>
  The enumeration \<open>OneWireUartResetResponse\<close> is declared in onewireuart.h, which is
  not among the sources; its four enumerators are the ones \<open>OneWireUartPulseReset\<close>
  returns.
\<close>

datatype OneWireUartResetResponse =
  UartImplDevicePresent | UartImplNoDevices | UartImplNoData | UartImplHardwareFailure

definition OneWireUartPulseReset :: "uart_state \<Rightarrow> OneWireUartResetResponse \<times> uart_state" where
  "OneWireUartPulseReset u =
     (let (ok, u1) = OneWireUartSetSpeed 9600 u
      in if \<not> ok then (UartImplHardwareFailure, u1)
         else
           let (sent, u2) = OneWireUartWriteByte 0xF0 False u1;
               (b, u3) = OneWireUartReadByte u2
           in if b = - 1 then (UartImplNoData, u3)
              else if b = 0xF0 then (UartImplNoDevices, u3)
              else (UartImplDevicePresent, u3))"

definition OneWireUartPulseWriteBit :: "int \<Rightarrow> bool \<Rightarrow> uart_state \<Rightarrow> bool \<times> uart_state" where
  "OneWireUartPulseWriteBit bit_v enableStrongPullup u =
     (let (ok, u1) = OneWireUartSetSpeed 115200 u
      in if \<not> ok then (False, u1)
         else
           let sentData = (if bit_v \<noteq> 0 then 0xFF else 0x00 :: int);
               (sent, u2) = OneWireUartWriteByte (word_of_int sentData) enableStrongPullup u1;
               (receivedData, u3) = OneWireUartReadByte u2
           in if receivedData = - 1 then (False, u3)
              else if receivedData \<noteq> sentData then (False, u3)
              else (True, u3))"

definition OneWireUartPulseReadBit :: "uart_state \<Rightarrow> int \<times> uart_state" where
  "OneWireUartPulseReadBit u =
     (let (ok, u1) = OneWireUartSetSpeed 115200 u
      in if \<not> ok then (- 1, u1)
         else
           let (sent, u2) = OneWireUartWriteByte 0xFF False u1;
               (b, u3) = OneWireUartReadByte u2
           in if b = - 1 then (- 1, u3)
              else if b = 0xFF then (1, u3)
              else (0, u3))"

section \<open>The CRC8 accumulator (crc8.h)\<close>

text \<open>
  Modelled from the spec: crc8.c, which implements \<open>DoCrc8\<close>, \<open>ClearCrc8\<close> and
  \<open>GetCrc8\<close> of crc8.h, is not among the sources. The spec describes a bit-serial
  computation: for each of the 8 bits of the input byte, least significant first,
  \<open>mix\<close> is the accumulator XOR the bit, the accumulator is shifted right by one, and
  is XORed with \<open>0x8C\<close> when \<open>mix\<close> is 1.
\<close>

fun crc8_bits :: "nat \<Rightarrow> u8 \<Rightarrow> u8 \<Rightarrow> u8" where
  "crc8_bits 0 acc v = acc"
| "crc8_bits (Suc k) acc v =
     (let mix = (acc XOR v) AND 1;
          acc1 = drop_bit 1 acc;
          acc2 = (if mix = 1 then acc1 XOR 0x8C else acc1)
      in crc8_bits k acc2 (drop_bit 1 v))"

definition crc8_byte :: "u8 \<Rightarrow> u8 \<Rightarrow> u8" where
  "crc8_byte acc v = crc8_bits 8 acc v"

section \<open>The program state\<close>

text \<open>
  The statics of onewiresearch.c (the search cursor), of onewirerom.c (the current
  identifier, an array of 8 bytes), the global accumulator of the CRC8 module, and the
  serial line.
\<close>

record state =
  OneWireLastDeviceFlag :: u8
  OneWireLastDiscrepancy :: u8
  OneWireLastFamilyDiscrepancy :: u8
  OneWireROM :: "u8 list"
  crc8 :: u8
  uart :: uart_state

definition DoCrc8 :: "u8 \<Rightarrow> state \<Rightarrow> u8 \<times> state" where
  "DoCrc8 v s = (let c = crc8_byte (crc8 s) v in (c, s\<lparr>crc8 := c\<rparr>))"

definition ClearCrc8 :: "state \<Rightarrow> state" where
  "ClearCrc8 s = s\<lparr>crc8 := 0\<rparr>"

definition GetCrc8 :: "state \<Rightarrow> u8" where
  "GetCrc8 s = crc8 s"

text \<open>onewirerom.c. Every index the program passes lies in 0..7.\<close>

definition OneWireROMGetByte :: "nat \<Rightarrow> state \<Rightarrow> u8" where
  "OneWireROMGetByte index s = OneWireROM s ! index"

definition OneWireROMSetByte :: "nat \<Rightarrow> u8 \<Rightarrow> state \<Rightarrow> state" where
  "OneWireROMSetByte index data s = s\<lparr>OneWireROM := (OneWireROM s)[index := data]\<rparr>"

section \<open>Bits, bytes and ROM commands (onewire.c)\<close>

datatype OneWireResetResponse = DevicePresent | NoDevices | NoData | HardwareFailure

text \<open>
  Modelled from the spec: the values of the enumerators of \<open>OneWireUartResetResponse\<close>
  (onewireuart.h is not among the sources). \<open>OneWireReset\<close> casts one enumeration to
  the other; the spec gives reset one outcome out of \<open>NoData\<close>, \<open>HardwareFailure\<close>,
  \<open>NoDevices\<close> and \<open>DevicePresent\<close>, so each enumerator has the value of the
  \<open>OneWireResetResponse\<close> enumerator of the same name.
\<close>

fun cast_OneWireResetResponse :: "OneWireUartResetResponse \<Rightarrow> OneWireResetResponse" where
  "cast_OneWireResetResponse UartImplDevicePresent = DevicePresent"
| "cast_OneWireResetResponse UartImplNoDevices = NoDevices"
| "cast_OneWireResetResponse UartImplNoData = NoData"
| "cast_OneWireResetResponse UartImplHardwareFailure = HardwareFailure"

definition OneWireReset :: "uart_state \<Rightarrow> OneWireResetResponse \<times> uart_state" where
  "OneWireReset u = (let (r, u1) = OneWireUartPulseReset u in (cast_OneWireResetResponse r, u1))"

definition OneWireWriteBit :: "int \<Rightarrow> bool \<Rightarrow> uart_state \<Rightarrow> bool \<times> uart_state" where
  "OneWireWriteBit bit_v enableStrongPullup u = OneWireUartPulseWriteBit bit_v enableStrongPullup u"

definition OneWireReadBit :: "uart_state \<Rightarrow> int \<times> uart_state" where
  "OneWireReadBit u = OneWireUartPulseReadBit u"

text \<open>
  The loop of \<open>OneWireSendByteOptionalPullup\<close>; the first argument counts the
  iterations left.
\<close>

fun send_loop :: "nat \<Rightarrow> u8 \<Rightarrow> bool \<Rightarrow> bool \<Rightarrow> uart_state \<Rightarrow> bool \<times> uart_state" where
  "send_loop 0 data enableStrongPullup status u = (status, u)"
| "send_loop (Suc k) data enableStrongPullup status u =
     (let (ok, u1) = OneWireWriteBit (uint (data AND 1)) enableStrongPullup u
      in send_loop k (drop_bit 1 data) enableStrongPullup (status \<and> ok) u1)"

definition OneWireSendByteOptionalPullup :: "u8 \<Rightarrow> bool \<Rightarrow> uart_state \<Rightarrow> bool \<times> uart_state" where
  "OneWireSendByteOptionalPullup data enableStrongPullup u =
     send_loop 8 data enableStrongPullup True u"

definition OneWireSendByte :: "u8 \<Rightarrow> uart_state \<Rightarrow> bool \<times> uart_state" where
  "OneWireSendByte data u = OneWireSendByteOptionalPullup data False u"

text \<open>
  The loop of \<open>OneWireReceiveByte\<close>: \<open>k\<close> iterations left, \<open>i\<close> the loop index. A
  failed bit sets \<open>data\<close> to \<open>-1\<close>, which no later bit changes.
\<close>

fun receive_loop :: "nat \<Rightarrow> nat \<Rightarrow> int \<Rightarrow> uart_state \<Rightarrow> int \<times> uart_state" where
  "receive_loop 0 i data u = (data, u)"
| "receive_loop (Suc k) i data u =
     (let (bitValue, u1) = OneWireReadBit u;
          data1 = (if bitValue = - 1 then - 1
                   else if bitValue = 1 then data OR push_bit i 1
                   else data)
      in receive_loop k (Suc i) data1 u1)"

definition OneWireReceiveByte :: "uart_state \<Rightarrow> int \<times> uart_state" where
  "OneWireReceiveByte u = receive_loop 8 0 0 u"

text \<open>The loop of \<open>OneWireMatchROM\<close> sending the 8 identifier bytes.\<close>

fun match_loop :: "nat \<Rightarrow> nat \<Rightarrow> state \<Rightarrow> state" where
  "match_loop 0 i s = s"
| "match_loop (Suc k) i s =
     (let (ok, u1) = OneWireSendByte (OneWireROMGetByte i s) (uart s)
      in match_loop k (Suc i) (s\<lparr>uart := u1\<rparr>))"

definition OneWireMatchROM :: "state \<Rightarrow> bool \<times> state" where
  "OneWireMatchROM s =
     (let (r, u1) = OneWireReset (uart s);
          (ok, u2) = OneWireSendByte 0x55 u1
      in (True, match_loop 8 0 (s\<lparr>uart := u2\<rparr>)))"

definition OneWireSkipROM :: "state \<Rightarrow> bool \<times> state" where
  "OneWireSkipROM s =
     (let (r, u1) = OneWireReset (uart s);
          (ok, u2) = OneWireSendByte 0xCC u1
      in (True, s\<lparr>uart := u2\<rparr>))"

text \<open>
  The first loop of \<open>OneWireSingleReadROM\<close>, which fills the local buffer \<open>rom\<close>:
  \<open>None\<close> is the early \<open>return false\<close> on a failed byte.
\<close>

fun read_rom_loop :: "nat \<Rightarrow> nat \<Rightarrow> u8 list \<Rightarrow> state \<Rightarrow> u8 list option \<times> state" where
  "read_rom_loop 0 i rom s = (Some rom, s)"
| "read_rom_loop (Suc k) i rom s =
     (let (b, u1) = OneWireReceiveByte (uart s);
          s1 = s\<lparr>uart := u1\<rparr>
      in if b = - 1 then (None, s1)
         else
           let (c, s2) = DoCrc8 (word_of_int b) s1
           in read_rom_loop k (Suc i) (rom[i := word_of_int b]) s2)"

text \<open>The second loop, which copies the buffer into the identifier.\<close>

fun commit_rom_loop :: "nat \<Rightarrow> nat \<Rightarrow> u8 list \<Rightarrow> state \<Rightarrow> state" where
  "commit_rom_loop 0 i rom s = s"
| "commit_rom_loop (Suc k) i rom s = commit_rom_loop k (Suc i) rom (OneWireROMSetByte i (rom ! i) s)"

text \<open>
  The local array \<open>rom\<close> is not initialised in the source; each of its 8 cells is
  written before it is read, so the model starts it at zero.
\<close>

definition OneWireSingleReadROM :: "state \<Rightarrow> bool \<times> state" where
  "OneWireSingleReadROM s =
     (let (r, u1) = OneWireReset (uart s);
          (ok, u2) = OneWireSendByte 0x33 u1;
          s1 = ClearCrc8 (s\<lparr>uart := u2\<rparr>)
      in case read_rom_loop 8 0 (replicate 8 0) s1 of
           (None, s2) \<Rightarrow> (False, s2)
         | (Some rom, s2) \<Rightarrow>
             if GetCrc8 s2 \<noteq> 0 then (False, s2)
             else (True, commit_rom_loop 8 0 rom s2))"

section \<open>Enumeration (onewiresearch.c)\<close>

definition OneWireResetSearch :: "state \<Rightarrow> state" where
  "OneWireResetSearch s =
     fold (\<lambda>i. OneWireROMSetByte i 0) [0..<8]
       (s\<lparr>OneWireLastDeviceFlag := 0, OneWireLastDiscrepancy := 0,
          OneWireLastFamilyDiscrepancy := 0\<rparr>)"

definition OneWireTargetSetup :: "u8 \<Rightarrow> state \<Rightarrow> state" where
  "OneWireTargetSetup familyId s =
     (OneWireROMSetByte 0 familyId (OneWireResetSearch s))\<lparr>OneWireLastDiscrepancy := 0x40\<rparr>"

text \<open>
  The locals of \<open>OneWireSearchROM\<close> that live across iterations of its loop.
  \<open>last_zero\<close> and \<open>rom_byte_number\<close> are C \<open>int\<close>s that only ever hold 0..64 and
  0..8; \<open>id_bit_number\<close> and \<open>rom_byte_mask\<close> are \<open>uint8_t\<close>. (\<open>id_bit\<close>,
  \<open>cmp_id_bit\<close> and \<open>search_direction\<close> are assigned afresh in every iteration.)
\<close>

record locals =
  id_bit_number :: u8
  last_zero :: nat
  rom_byte_number :: nat
  rom_byte_mask :: u8

definition init_locals :: locals where
  "init_locals = \<lparr>id_bit_number = 1, last_zero = 0, rom_byte_number = 0, rom_byte_mask = 1\<rparr>"

text \<open>
  Lines 153-172: the direction for this bit. With differing bits the devices agree and
  the bit read is taken; on a collision the cursor decides, and a 0 is recorded.
\<close>

definition pick_direction :: "int \<Rightarrow> int \<Rightarrow> locals \<Rightarrow> state \<Rightarrow> u8 \<times> locals \<times> state" where
  "pick_direction id_bit cmp_id_bit l s =
     (if id_bit \<noteq> cmp_id_bit then (word_of_int id_bit, l, s)
      else
        let search_direction =
              (if id_bit_number l < OneWireLastDiscrepancy s then
                 (if OneWireROMGetByte (rom_byte_number l) s AND rom_byte_mask l > 0 then 1 else 0)
               else (if id_bit_number l = OneWireLastDiscrepancy s then 1 else 0 :: u8))
        in if search_direction = 0 then
             let l1 = l\<lparr>last_zero := unat (id_bit_number l)\<rparr>;
                 s1 = (if last_zero l1 < 9
                       then s\<lparr>OneWireLastFamilyDiscrepancy := of_nat (last_zero l1)\<rparr>
                       else s)
             in (search_direction, l1, s1)
           else (search_direction, l, s))"

text \<open>Lines 176-181: set or clear the bit of the identifier.\<close>

definition store_direction :: "u8 \<Rightarrow> locals \<Rightarrow> state \<Rightarrow> state" where
  "store_direction search_direction l s =
     (if search_direction = 1 then
        OneWireROMSetByte (rom_byte_number l)
          (OneWireROMGetByte (rom_byte_number l) s OR rom_byte_mask l) s
      else
        OneWireROMSetByte (rom_byte_number l)
          (OneWireROMGetByte (rom_byte_number l) s AND NOT (rom_byte_mask l)) s)"

text \<open>Lines 189-197: the next bit position, and the CRC at the end of a byte.\<close>

definition advance :: "locals \<Rightarrow> state \<Rightarrow> locals \<times> state" where
  "advance l s =
     (let l1 = l\<lparr>id_bit_number := id_bit_number l + 1,
                 rom_byte_mask := push_bit 1 (rom_byte_mask l)\<rparr>
      in if rom_byte_mask l1 = 0 then
           let (c, s1) = DoCrc8 (OneWireROMGetByte (rom_byte_number l1) s) s
           in (l1\<lparr>rom_byte_number := Suc (rom_byte_number l1), rom_byte_mask := 1\<rparr>, s1)
         else (l1, s))"

text \<open>
  One run of the loop body (lines 141-198). The first component is \<open>False\<close> when the
  body left the loop by \<open>break\<close>, \<open>True\<close> when it reached the loop condition.
\<close>

definition search_step :: "locals \<Rightarrow> state \<Rightarrow> bool \<times> locals \<times> state" where
  "search_step l s =
     (let (id_bit, u1) = OneWireReadBit (uart s);
          (cmp_id_bit, u2) = OneWireReadBit u1;
          s2 = s\<lparr>uart := u2\<rparr>
      in if id_bit = - 1 \<or> cmp_id_bit = - 1 then (False, l, s2)
         else if id_bit = 1 \<and> cmp_id_bit = 1 then (False, l, s2)
         else
           let (search_direction, l3, s3) = pick_direction id_bit cmp_id_bit l s2;
               s4 = store_direction search_direction l3 s3;
               (ok, u5) = OneWireWriteBit (uint search_direction) False (uart s4);
               s5 = s4\<lparr>uart := u5\<rparr>
           in if \<not> ok then (False, l3, s5)
              else
                let (l6, s6) = advance l3 s5
                in (True, l6, s6))"

text \<open>
  The \<open>do ... while (rom_byte_number < 8)\<close> loop. It terminates from any locals: a
  run of the body that reaches the loop condition either moves to the next byte or
  shifts the mask, and an 8-bit mask is zero after at most 8 shifts (\<open>mask_rank\<close>, the
  number of shifts left, only serves as the measure of the termination proof).
\<close>

definition mask_rank :: "u8 \<Rightarrow> nat" where
  "mask_rank m = (LEAST k. push_bit k m = 0)"

function search_loop :: "locals \<Rightarrow> state \<Rightarrow> locals \<times> state" where
  "search_loop l s =
     (case search_step l s of
        (False, l', s') \<Rightarrow> (l', s')
      | (True, l', s') \<Rightarrow> if rom_byte_number l' < 8 then search_loop l' s' else (l', s'))"
  by pat_completeness auto

termination
proof -
  have zero: "push_bit (mask_rank m) m = 0" for m
    unfolding mask_rank_def
  proof (rule LeastI)
    have "push_bit 8 m = m * 256" by (simp add: push_bit_eq_mult)
    also have "(256 :: u8) = 0" by simp
    finally show "push_bit 8 m = 0" by simp
  qed
  have shift: "mask_rank (push_bit 1 m) < mask_rank m" if "push_bit 1 m \<noteq> 0" for m
  proof -
    have "mask_rank m \<noteq> 0"
    proof
      assume "mask_rank m = 0"
      with zero [of m] have "m = 0" by simp
      with that show False by simp
    qed
    then obtain j where j: "mask_rank m = Suc j" by (cases "mask_rank m") auto
    from zero [of m] j have "push_bit j (push_bit 1 m) = 0" by (simp add: push_bit_push_bit)
    then have "mask_rank (push_bit 1 m) \<le> j" unfolding mask_rank_def by (rule Least_le)
    with j show ?thesis by simp
  qed
  have adv: "(rom_byte_number l' = rom_byte_number l \<and>
              rom_byte_mask l' = push_bit 1 (rom_byte_mask l) \<and> push_bit 1 (rom_byte_mask l) \<noteq> 0)
           \<or> rom_byte_number l' = Suc (rom_byte_number l)"
    if "advance l s = (l', s')" for l s l' s'
    using that by (auto simp: advance_def Let_def DoCrc8_def split: if_splits prod.splits)
  have pick: "rom_byte_number l' = rom_byte_number l \<and> rom_byte_mask l' = rom_byte_mask l"
    if "pick_direction a b l s = (d, l', s')" for a b l s d l' s'
    using that by (auto simp: pick_direction_def Let_def split: if_splits)
  have step: "(rom_byte_number l' = rom_byte_number l \<and>
               mask_rank (rom_byte_mask l') < mask_rank (rom_byte_mask l))
            \<or> rom_byte_number l' = Suc (rom_byte_number l)"
    if "search_step l s = (True, l', s')" for l s l' s'
    using that
    by (auto simp: search_step_def Let_def split: prod.splits if_splits
             dest!: adv pick dest: shift)
  show ?thesis
    apply (relation "measures [\<lambda>(l, s). 8 - rom_byte_number l,
                               \<lambda>(l, s). mask_rank (rom_byte_mask l)]")
     apply simp
    apply (auto dest!: step [OF sym])
    done
qed

declare search_loop.simps [simp del]

text \<open>
  Lines 201-211: the pass is valid when all 64 bits were done and the CRC is 0; then
  the cursor takes the position of the last 0 chosen.
\<close>

definition search_commit :: "locals \<Rightarrow> state \<Rightarrow> bool \<times> state" where
  "search_commit l s =
     (if \<not> (id_bit_number l < 65 \<or> GetCrc8 s \<noteq> 0) then
        let s1 = s\<lparr>OneWireLastDiscrepancy := of_nat (last_zero l)\<rparr>;
            s2 = (if OneWireLastDiscrepancy s1 = 0 then s1\<lparr>OneWireLastDeviceFlag := 1\<rparr> else s1)
        in (True, s2)
      else (False, s))"

text \<open>Lines 214-222: no device found, or a family code of 0, resets the cursor.\<close>

definition search_finish :: "bool \<times> state \<Rightarrow> bool \<times> state" where
  "search_finish rs =
     (let (search_result, s) = rs
      in if \<not> search_result \<or> OneWireROMGetByte 0 s = 0 then
           (False, s\<lparr>OneWireLastDiscrepancy := 0, OneWireLastDeviceFlag := 0,
                      OneWireLastFamilyDiscrepancy := 0\<rparr>)
         else (search_result, s))"

definition OneWireSearchROM :: "bool \<Rightarrow> state \<Rightarrow> bool \<times> state" where
  "OneWireSearchROM alarmSearch s =
     (let s0 = ClearCrc8 s
      in if OneWireLastDeviceFlag s0 = 0 then
           let (r, u1) = OneWireReset (uart s0)
           in if r \<noteq> DevicePresent then
                (False, s0\<lparr>uart := u1, OneWireLastDiscrepancy := 0, OneWireLastDeviceFlag := 0,
                            OneWireLastFamilyDiscrepancy := 0\<rparr>)
              else
                let (sent, u2) = OneWireSendByte (if alarmSearch then 0xEC else 0xF0) u1;
                    (l, s3) = search_loop init_locals (s0\<lparr>uart := u2\<rparr>)
                in search_finish (search_commit l s3)
         else search_finish (False, s0))"

text \<open>
  The loop of \<open>OneWireVerifyROM\<close> that compares the identifier with the snapshot
  \<open>rom\<close> and writes the snapshot back where they differ.
\<close>

fun restore_loop :: "nat \<Rightarrow> nat \<Rightarrow> u8 list \<Rightarrow> bool \<Rightarrow> state \<Rightarrow> bool \<times> state" where
  "restore_loop 0 i rom isVerified s = (isVerified, s)"
| "restore_loop (Suc k) i rom isVerified s =
     (if rom ! i \<noteq> OneWireROMGetByte i s
      then restore_loop k (Suc i) rom False (OneWireROMSetByte i (rom ! i) s)
      else restore_loop k (Suc i) rom isVerified s)"

definition OneWireVerifyROM :: "state \<Rightarrow> bool \<times> state" where
  "OneWireVerifyROM s =
     (let lastDeviceFlag = OneWireLastDeviceFlag s;
          lastDiscrepancy = OneWireLastDiscrepancy s;
          lastFamilyDiscrepancy = OneWireLastFamilyDiscrepancy s;
          rom = map (\<lambda>i. OneWireROMGetByte i s) [0..<8];
          s1 = s\<lparr>OneWireLastDiscrepancy := 0x40, OneWireLastDeviceFlag := 0,
                  OneWireLastFamilyDiscrepancy := 0\<rparr>;
          (isVerified, s2) = OneWireSearchROM False s1;
          (isVerified', s3) = restore_loop 8 0 rom isVerified s2
      in (isVerified',
          s3\<lparr>OneWireLastDeviceFlag := lastDeviceFlag, OneWireLastDiscrepancy := lastDiscrepancy,
             OneWireLastFamilyDiscrepancy := lastFamilyDiscrepancy\<rparr>))"

section \<open>Vocabulary of the statements\<close>

text \<open>
  What a read script offers to a poll of at most \<open>n\<close> attempts: \<open>first_byte\<close> is the
  first byte delivered within the first \<open>n\<close> attempts, if there is one;
  \<open>failed_polls\<close> counts the attempts that deliver nothing before that byte (all \<open>n\<close>
  of them when no byte comes).
\<close>

fun first_byte :: "nat \<Rightarrow> u8 option list \<Rightarrow> u8 option" where
  "first_byte 0 rx = None"
| "first_byte (Suc n) [] = None"
| "first_byte (Suc n) (None # rx) = first_byte n rx"
| "first_byte (Suc n) (Some b # rx) = Some b"

fun failed_polls :: "nat \<Rightarrow> u8 option list \<Rightarrow> nat" where
  "failed_polls 0 rx = 0"
| "failed_polls (Suc n) [] = Suc (failed_polls n [])"
| "failed_polls (Suc n) (None # rx) = Suc (failed_polls n rx)"
| "failed_polls (Suc n) (Some b # rx) = 0"

text \<open>
  \<open>receive_bytes n u\<close>: the bytes that up to \<open>n\<close> successive calls of
  \<open>OneWireReceiveByte\<close> deliver, in read order, up to the first call that fails.
\<close>

fun receive_bytes :: "nat \<Rightarrow> uart_state \<Rightarrow> u8 list \<times> uart_state" where
  "receive_bytes 0 u = ([], u)"
| "receive_bytes (Suc n) u =
     (let (b, u1) = OneWireReceiveByte u
      in if b = - 1 then ([], u1)
         else let (bs, u2) = receive_bytes n u1 in (word_of_int b # bs, u2))"

text \<open>
  \<open>rom_bit rom n\<close>: the bit of the identifier at the 1-based position \<open>n\<close> of the
  64-bit stream (byte \<open>(n - 1) div 8\<close>, bit \<open>(n - 1) mod 8\<close>).
  \<open>prescribed_direction\<close> is the rule of the specification for a collision at position
  \<open>n\<close>: replay the stored bit before the last discrepancy, 1 at it, 0 after it.
\<close>

definition rom_bit :: "u8 list \<Rightarrow> nat \<Rightarrow> bool" where
  "rom_bit rom n = bit (rom ! ((n - 1) div 8)) ((n - 1) mod 8)"

definition prescribed_direction :: "nat \<Rightarrow> nat \<Rightarrow> u8 list \<Rightarrow> bool" where
  "prescribed_direction n lastDiscrepancy rom =
     (if n < lastDiscrepancy then rom_bit rom n else n = lastDiscrepancy)"

text \<open>
  The configurations at the head of the loop body during the pass
  \<open>OneWireSearchROM alarmSearch s0\<close>: the first one after the reset found a device and
  the command was sent, and the next one after each run of the body that reaches the
  loop condition with bytes left.
\<close>

inductive pass_config :: "bool \<Rightarrow> state \<Rightarrow> locals \<Rightarrow> state \<Rightarrow> bool"
  for alarmSearch :: bool and s0 :: state where
  start: "OneWireLastDeviceFlag s0 = 0 \<Longrightarrow>
          OneWireReset (uart s0) = (DevicePresent, u1) \<Longrightarrow>
          OneWireSendByte (if alarmSearch then 0xEC else 0xF0) u1 = (sent, u2) \<Longrightarrow>
          pass_config alarmSearch s0 init_locals ((ClearCrc8 s0)\<lparr>uart := u2\<rparr>)"
| continue: "pass_config alarmSearch s0 l s \<Longrightarrow>
         search_step l s = (True, l', s') \<Longrightarrow> rom_byte_number l' < 8 \<Longrightarrow>
         pass_config alarmSearch s0 l' s'"

text \<open>
  The loop invariant at the 0-based bit index \<open>k\<close>: the three counters agree, the
  identifier has its 8 bytes, the last 0 was chosen at an earlier position, and the CRC
  covers the bytes completed so far.
\<close>

definition loop_inv :: "nat \<Rightarrow> locals \<Rightarrow> state \<Rightarrow> bool" where
  "loop_inv k l s \<longleftrightarrow>
     id_bit_number l = of_nat (Suc k) \<and> rom_byte_number l = k div 8 \<and>
     rom_byte_mask l = 2 ^ (k mod 8) \<and> last_zero l \<le> k \<and>
     length (OneWireROM s) = 8 \<and>
     crc8 s = foldl crc8_byte 0 (take (k div 8) (OneWireROM s))"

text \<open>
  The states the program can be in after any sequence of calls of
  \<open>OneWireResetSearch\<close>, \<open>OneWireTargetSetup\<close>, \<open>OneWireSearchROM\<close> and
  \<open>OneWireVerifyROM\<close>, from a start with the statics at zero (cursor and identifier)
  and any line.
\<close>

inductive reachable :: "state \<Rightarrow> bool" where
  initial: "OneWireLastDeviceFlag s = 0 \<Longrightarrow> OneWireLastDiscrepancy s = 0 \<Longrightarrow>
            OneWireLastFamilyDiscrepancy s = 0 \<Longrightarrow> OneWireROM s = replicate 8 0 \<Longrightarrow>
            reachable s"
| resetSearch: "reachable s \<Longrightarrow> reachable (OneWireResetSearch s)"
| targetSetup: "reachable s \<Longrightarrow> reachable (OneWireTargetSetup familyId s)"
| searchROM: "reachable s \<Longrightarrow> reachable (snd (OneWireSearchROM alarmSearch s))"
| verifyROM: "reachable s \<Longrightarrow> reachable (snd (OneWireVerifyROM s))"

section \<open>Test buses\<close>

text \<open>
  An opened line at 9600 baud, as \<open>OneWireUartInit\<close> leaves it, with the read script
  \<open>rx\<close> and one more \<open>UART_Open\<close> that succeeds.
\<close>

definition uart_ready :: "u8 option list \<Rightarrow> uart_state" where
  "uart_ready rx =
     \<lparr>gpioPullupFd = 4, uartFd = 3, uartId = 0, uartBaud = 9600, rx_script = rx,
      read_calls = 0, tx_log = [], write_script = [], close_script = [], open_script = [5],
      pullup_high = False, slept_ns = 0\<rparr>"

definition state_ready :: "u8 list \<Rightarrow> u8 option list \<Rightarrow> state" where
  "state_ready rom rx =
     \<lparr>OneWireLastDeviceFlag = 0, OneWireLastDiscrepancy = 0, OneWireLastFamilyDiscrepancy = 0,
      OneWireROM = rom, crc8 = 0, uart = uart_ready rx\<rparr>"

text \<open>
  What the line echoes when the master writes a bit (the byte sent comes
  back), and when it reads a bit that the device holds at \<open>b\<close> (\<open>0xFF\<close> comes back
  untouched for a 1, stretched to \<open>0xF8\<close> for a 0). \<open>single_read_bus rom\<close> is the
  script of a bus whose only device has the identifier \<open>rom\<close>, during
  \<open>OneWireSingleReadROM\<close>: presence pulse, echo of the command \<open>0x33\<close>, then the 64
  identifier bits.
\<close>

definition bit_list :: "u8 \<Rightarrow> bool list" where
  "bit_list w = map (bit w) [0..<8]"

definition write_echo :: "bool \<Rightarrow> u8 option" where
  "write_echo b = Some (if b then 0xFF else 0x00)"

definition read_echo :: "bool \<Rightarrow> u8 option" where
  "read_echo b = Some (if b then 0xFF else 0xF8)"

definition single_read_bus :: "u8 list \<Rightarrow> u8 option list" where
  "single_read_bus rom =
     Some 0xE0 # map write_echo (bit_list 0x33) @ map read_echo (concat (map bit_list rom))"

text \<open>
  \<open>no_device_bus bytes\<close>: the script of a bus with no device on it while the master
  resets and then sends \<open>bytes\<close>: everything it transmits comes back unchanged.
\<close>

definition no_device_bus :: "u8 list \<Rightarrow> u8 option list" where
  "no_device_bus bytes = Some 0xF0 # map write_echo (concat (map bit_list bytes))"

text \<open>
  \<open>two_device_bus rom k\<close>: the script of a search pass on a bus with two devices whose
  identifiers differ first at the 0-based bit index \<open>k\<close>, for the pass that follows
  \<open>rom\<close>: presence pulse, echo of the command \<open>0xF0\<close>, then for each bit the two reads
  and the echo of the direction written. At index \<open>k\<close> both reads give 0; everywhere
  else the devices left agree with \<open>rom\<close>.
  The two devices are \<open>28 01 02 03 04 05 06 9E\<close> and \<open>10 01 02 03 04 05 06 7B\<close>, which
  differ first at index 3 (position 4).
\<close>

definition two_device_bus :: "u8 list \<Rightarrow> nat \<Rightarrow> u8 option list" where
  "two_device_bus rom k =
     Some 0xE0 # map write_echo (bit_list 0xF0) @
     concat (map (\<lambda>(i, b). if i = k then [read_echo False, read_echo False, write_echo b]
                             else [read_echo b, read_echo (\<not> b), write_echo b])
                 (zip [0..<64] (concat (map bit_list rom))))"

definition first_pass_start :: state where
  "first_pass_start = state_ready (replicate 8 0) (two_device_bus [0x10, 1, 2, 3, 4, 5, 6, 0x7B] 3)"

definition verify_start :: state where
  "verify_start =
     (state_ready [0x28, 1, 2, 3, 4, 5, 6, 0x9E] (two_device_bus [0x28, 1, 2, 3, 4, 5, 6, 0x9E] 3))
       \<lparr>OneWireLastDiscrepancy := 4, OneWireLastFamilyDiscrepancy := 4\<rparr>"

text \<open>
  The head of the loop at position 1 on a bus whose two devices differ in their first
  bit: the identifier \<open>stored\<close> and the last discrepancy \<open>ld\<close> are what earlier passes
  left, and the pass follows \<open>rom\<close>.
\<close>

definition collision_start :: "u8 list \<Rightarrow> u8 list \<Rightarrow> u8 \<Rightarrow> state" where
  "collision_start stored rom ld =
     (state_ready stored (two_device_bus rom 0))\<lparr>OneWireLastDiscrepancy := ld\<rparr>"

definition collision_head :: "u8 list \<Rightarrow> u8 list \<Rightarrow> u8 \<Rightarrow> state" where
  "collision_head stored rom ld =
     (ClearCrc8 (collision_start stored rom ld))
       \<lparr>uart := snd (OneWireSendByte 0xF0 (snd (OneWireReset (uart_ready (two_device_bus rom 0)))))\<rparr>"

text \<open>
  The cursor a pass leaves after the last device of a bus (flag set, no discrepancy
  left, the family discrepancy of this enumeration at 4), with that device's identifier.
\<close>

definition after_last_device :: state where
  "after_last_device =
     (state_ready [0x28, 1, 2, 3, 4, 5, 6, 0x9E] [])
       \<lparr>OneWireLastDeviceFlag := 1, OneWireLastFamilyDiscrepancy := 4\<rparr>"

section \<open>Receiving one octet\<close>

lemma first_byte_Nil [simp]: "first_byte n [] = None"
  by (induction n) auto

lemma failed_polls_Nil [simp]: "failed_polls n [] = n"
  by (induction n) auto

lemma failed_polls_le: "failed_polls n rx \<le> n"
  by (induction n rx rule: failed_polls.induct) auto

lemma failed_polls_first_byte: "failed_polls n rx = n \<longleftrightarrow> first_byte n rx = None"
  by (induction n rx rule: failed_polls.induct) auto

lemma SleepMilli_1: "SleepMilli 1 u = u\<lparr>slept_ns := slept_ns u + 1000000\<rparr>"
  by (simp add: SleepMilli_def)

lemma uint_u8_not_minus1: "uint (b :: u8) \<noteq> - 1"
  using uint_ge_0 [of b] by linarith

lemma read_loop_done: "data \<noteq> - 1 \<Longrightarrow> read_loop n data u = (data, u)"
  by (cases n) simp_all

lemma read_loop_polls:
  "read_loop n (- 1) u =
     ((case first_byte n (rx_script u) of None \<Rightarrow> - 1 | Some b \<Rightarrow> uint b),
      u\<lparr>rx_script := drop (failed_polls n (rx_script u) +
                           (if first_byte n (rx_script u) = None then 0 else 1)) (rx_script u),
        read_calls := read_calls u + failed_polls n (rx_script u) +
                        (if first_byte n (rx_script u) = None then 0 else 1),
        slept_ns := slept_ns u + 1000000 * int (failed_polls n (rx_script u))\<rparr>)"
proof (induction n arbitrary: u)
  case 0
  then show ?case by simp
next
  case (Suc n)
  show ?case
  proof (cases "rx_script u")
    case Nil
    then show ?thesis
      by (simp add: sys_read_def SleepMilli_1 Suc algebra_simps)
  next
    case (Cons x xs)
    show ?thesis
    proof (cases x)
      case None
      with Cons show ?thesis
        by (simp add: sys_read_def SleepMilli_1 Suc algebra_simps)
    next
      case (Some b)
      with Cons show ?thesis
        by (simp add: sys_read_def uint_u8_not_minus1 read_loop_done)
    qed
  qed
qed

lemmas OneWireUartReadByte_polls = read_loop_polls [of 100, folded OneWireUartReadByte_def]

text \<open>
  C8. \<open>OneWireUartReadByte\<close> always returns, after at most 100 calls of \<open>read\<close>; it
  sleeps 1 ms after each call that delivered nothing (and only then); and when all 100
  attempts deliver nothing it returns \<open>-1\<close>. Otherwise it returns the byte, a value in
  0..255, after one more call than the ones that failed.
\<close>

theorem OneWireUartReadByte_bounded_retry:
  assumes "OneWireUartReadByte u = (data, u')"
  shows "read_calls u' \<le> read_calls u + 100
       \<and> read_calls u' = read_calls u + failed_polls 100 (rx_script u) + (if data = - 1 then 0 else 1)
       \<and> slept_ns u' = slept_ns u + 1000000 * int (failed_polls 100 (rx_script u))
       \<and> (failed_polls 100 (rx_script u) = 100 \<longleftrightarrow> data = - 1)
       \<and> (data = - 1 \<or> (0 \<le> data \<and> data < 256))"
proof -
  let ?rx = "rx_script u"
  from assms have d: "data = (case first_byte 100 ?rx of None \<Rightarrow> - 1 | Some b \<Rightarrow> uint b)"
    and c: "read_calls u' = read_calls u + failed_polls 100 ?rx +
              (if first_byte 100 ?rx = None then 0 else 1)"
    and z: "slept_ns u' = slept_ns u + 1000000 * int (failed_polls 100 ?rx)"
    by (auto simp: OneWireUartReadByte_polls)
  have e: "data = - 1 \<longleftrightarrow> first_byte 100 ?rx = None"
    using d by (auto simp: uint_u8_not_minus1 split: option.splits)
  have r: "data = - 1 \<or> (0 \<le> data \<and> data < 256)"
  proof (cases "first_byte 100 ?rx")
    case None
    with d show ?thesis by simp
  next
    case (Some b)
    have "uint b < 2 ^ LENGTH(8)" by (rule uint_lt2p)
    with d Some show ?thesis by simp
  qed
  have f: "failed_polls 100 ?rx = 100 \<longleftrightarrow> data = - 1"
    using e failed_polls_first_byte [of 100 ?rx] by simp
  have b: "read_calls u' \<le> read_calls u + 100"
  proof (cases "data = - 1")
    case True
    with c e failed_polls_le [of 100 ?rx] show ?thesis by simp
  next
    case False
    with f failed_polls_le [of 100 ?rx] have "failed_polls 100 ?rx < 100" by linarith
    with c show ?thesis by simp
  qed
  from b c e z f r show ?thesis by simp
qed

text \<open>On a line where nothing arrives the call gives up after 100 reads and 100 ms.\<close>

theorem OneWireUartReadByte_bounded_retry_witness:
  "fst (OneWireUartReadByte (uart_ready [])) = - 1
   \<and> read_calls (snd (OneWireUartReadByte (uart_ready []))) = 100
   \<and> slept_ns (snd (OneWireUartReadByte (uart_ready []))) = 100000000"
  using OneWireUartReadByte_bounded_retry [of "uart_ready []"
      "fst (OneWireUartReadByte (uart_ready []))" "snd (OneWireUartReadByte (uart_ready []))"]
  by (simp add: uart_ready_def)

section \<open>Reset and presence\<close>

lemma OneWireUartSetSpeed_frame:
  assumes "OneWireUartSetSpeed baud u = (ok, u1)"
  shows "rx_script u1 = rx_script u \<and> tx_log u1 = tx_log u \<and> read_calls u1 = read_calls u
       \<and> slept_ns u1 = slept_ns u \<and> uartId u1 = uartId u
       \<and> (if ok then uartBaud u1 = baud \<and> uartId u1 \<noteq> - 1 else True)"
  using assms
  by (auto simp: OneWireUartSetSpeed_def sys_close_def UART_Open_def Let_def
           split: if_splits list.splits prod.splits)

lemma OneWireUartSetSpeed_same:
  "uartId u \<noteq> - 1 \<Longrightarrow> uartBaud u = baud \<Longrightarrow> OneWireUartSetSpeed baud u = (True, u)"
  by (simp add: OneWireUartSetSpeed_def)

lemma OneWireUartWriteByte_frame:
  assumes "OneWireUartWriteByte data p u = (sent, u1)"
  shows "rx_script u1 = rx_script u \<and> tx_log u1 = tx_log u @ [(uartBaud u, data)]
       \<and> read_calls u1 = read_calls u \<and> slept_ns u1 = slept_ns u
       \<and> uartId u1 = uartId u \<and> uartBaud u1 = uartBaud u"
  using assms
  by (auto simp: OneWireUartWriteByte_def sys_write_def Let_def
                 OneWireDisableStrongPullupGpio_def OneWireEnableStrongPullupGpio_def
           split: if_splits list.splits prod.splits)

lemma OneWireUartReadByte_frame:
  assumes "OneWireUartReadByte u = (data, u1)"
  shows "tx_log u1 = tx_log u \<and> uartId u1 = uartId u \<and> uartBaud u1 = uartBaud u
       \<and> data = (case first_byte 100 (rx_script u) of None \<Rightarrow> - 1 | Some b \<Rightarrow> uint b)"
  using assms by (auto simp: OneWireUartReadByte_polls)

lemma first_byte_numeral [simp]:
  "first_byte (numeral k) (x # rx) =
     (case x of None \<Rightarrow> first_byte (pred_numeral k) rx | Some b \<Rightarrow> Some b)"
  by (simp add: numeral_eq_Suc split: option.splits)

lemma failed_polls_numeral [simp]:
  "failed_polls (numeral k) (x # rx) =
     (case x of None \<Rightarrow> Suc (failed_polls (pred_numeral k) rx) | Some b \<Rightarrow> 0)"
  by (simp add: numeral_eq_Suc split: option.splits)

text \<open>
  C5. \<open>OneWireUartPulseReset\<close>, and \<open>OneWireReset\<close> which casts its result, end in
  exactly one of four ways. When the rate 9600 cannot be set the result is
  \<open>HardwareFailure\<close> and nothing is transmitted. Otherwise the pattern \<open>0xF0\<close> is
  transmitted at 9600 baud and the echo decides: no byte within the 100 polls gives
  \<open>NoData\<close>, the byte \<open>0xF0\<close> gives \<open>NoDevices\<close>, any other byte \<open>DevicePresent\<close>
  (each under its \<open>UartImpl\<close> name until \<open>OneWireReset\<close> casts it).
\<close>

theorem reset_classification:
  assumes "OneWireUartPulseReset u = (r, u')"
  shows "OneWireReset u = (cast_OneWireResetResponse r, u')
       \<and> (if fst (OneWireUartSetSpeed 9600 u) then
            tx_log u' = tx_log u @ [(9600, 0xF0)]
            \<and> r = (case first_byte 100 (rx_script u) of
                     None \<Rightarrow> UartImplNoData
                   | Some b \<Rightarrow> if b = 0xF0 then UartImplNoDevices else UartImplDevicePresent)
          else tx_log u' = tx_log u \<and> r = UartImplHardwareFailure)"
proof -
  have cast: "OneWireReset u = (cast_OneWireResetResponse r, u')"
    using assms by (simp add: OneWireReset_def)
  obtain ok u1 where sp: "OneWireUartSetSpeed 9600 u = (ok, u1)"
    by (cases "OneWireUartSetSpeed 9600 u")
  note f1 = OneWireUartSetSpeed_frame [OF sp]
  show ?thesis
  proof (cases ok)
    case False
    with assms sp f1 cast show ?thesis
      by (simp add: OneWireUartPulseReset_def)
  next
    case True
    obtain sent u2 where wr: "OneWireUartWriteByte 0xF0 False u1 = (sent, u2)"
      by (cases "OneWireUartWriteByte 0xF0 False u1")
    obtain b u3 where rd: "OneWireUartReadByte u2 = (b, u3)"
      by (cases "OneWireUartReadByte u2")
    note f2 = OneWireUartWriteByte_frame [OF wr]
    note f3 = OneWireUartReadByte_frame [OF rd]
    from assms sp True wr rd
    have r: "r = (if b = - 1 then UartImplNoData
                  else if b = 0xF0 then UartImplNoDevices else UartImplDevicePresent)"
      and u': "u' = u3"
      by (auto simp: OneWireUartPulseReset_def split: if_splits)
    have tx: "tx_log u' = tx_log u @ [(9600, 0xF0)]"
      using u' f1 f2 f3 True by simp
    have cls: "r = (case first_byte 100 (rx_script u) of
                      None \<Rightarrow> UartImplNoData
                    | Some b \<Rightarrow> if b = 0xF0 then UartImplNoDevices else UartImplDevicePresent)"
    proof (cases "first_byte 100 (rx_script u)")
      case None
      with f1 f2 f3 r show ?thesis by simp
    next
      case (Some c)
      have "uint c = 0xF0 \<longleftrightarrow> c = 0xF0"
        using word_uint_eq_iff [of c "0xF0"] by simp
      with Some f1 f2 f3 r show ?thesis by (simp add: uint_u8_not_minus1)
    qed
    from cast tx cls sp True show ?thesis by simp
  qed
qed

text \<open>
  On an opened line an echo of \<open>0xE0\<close> means a device is present, the echo \<open>0xF0\<close>
  means none, and silence means no data; a line that was never set up is a hardware
  failure.
\<close>

theorem reset_classification_witness:
  "fst (OneWireReset (uart_ready [Some 0xE0])) = DevicePresent
   \<and> fst (OneWireReset (uart_ready [None, Some 0xF0])) = NoDevices
   \<and> fst (OneWireReset (uart_ready [])) = NoData
   \<and> fst (OneWireReset ((uart_ready [Some 0xE0])\<lparr>uartId := - 1\<rparr>)) = HardwareFailure"
  using reset_classification [of "uart_ready [Some 0xE0]"
      "fst (OneWireUartPulseReset (uart_ready [Some 0xE0]))"
      "snd (OneWireUartPulseReset (uart_ready [Some 0xE0]))"]
    reset_classification [of "uart_ready [None, Some 0xF0]"
      "fst (OneWireUartPulseReset (uart_ready [None, Some 0xF0]))"
      "snd (OneWireUartPulseReset (uart_ready [None, Some 0xF0]))"]
    reset_classification [of "uart_ready []"
      "fst (OneWireUartPulseReset (uart_ready []))"
      "snd (OneWireUartPulseReset (uart_ready []))"]
    reset_classification [of "(uart_ready [Some 0xE0])\<lparr>uartId := - 1\<rparr>"
      "fst (OneWireUartPulseReset ((uart_ready [Some 0xE0])\<lparr>uartId := - 1\<rparr>))"
      "snd (OneWireUartPulseReset ((uart_ready [Some 0xE0])\<lparr>uartId := - 1\<rparr>))"]
  by (simp add: uart_ready_def OneWireUartSetSpeed_def)

section \<open>Reading the identifier of a single device\<close>

lemma read_rom_loop_receive:
  "i + k \<le> length rom \<Longrightarrow>
   read_rom_loop k i rom s =
     (case receive_bytes k (uart s) of
        (bs, u') \<Rightarrow>
          (if length bs = k then Some (take i rom @ bs @ drop (i + k) rom) else None,
           s\<lparr>crc8 := foldl crc8_byte (crc8 s) bs, uart := u'\<rparr>))"
proof (induction k arbitrary: i rom s)
  case 0
  then show ?case by simp
next
  case (Suc k)
  obtain b u1 where rb: "OneWireReceiveByte (uart s) = (b, u1)"
    by (cases "OneWireReceiveByte (uart s)")
  show ?case
  proof (cases "b = - 1")
    case True
    with rb show ?thesis by simp
  next
    case False
    obtain bs u2 where rs: "receive_bytes k u1 = (bs, u2)"
      by (cases "receive_bytes k u1")
    from Suc.prems have i: "i < length rom" and le: "Suc i + k \<le> length (rom[i := word_of_int b])"
      by simp_all
    have tk: "take (Suc i) (rom[i := word_of_int b]) = take i rom @ [word_of_int b]"
      using i by (simp add: take_Suc_conv_app_nth)
    have dr: "drop (Suc i + k) (rom[i := word_of_int b]) = drop (Suc (i + k)) rom"
      by simp
    show ?thesis
      using rb False rs Suc.IH [OF le, of "s\<lparr>uart := u1, crc8 := crc8_byte (crc8 s) (word_of_int b)\<rparr>"]
      by (simp add: DoCrc8_def Let_def tk dr)
  qed
qed

lemma length8_cases:
  "length xs = 8 \<Longrightarrow> \<exists>a b c d e f g h. xs = [a, b, c, d, e, f, g, h]"
  by (auto simp: numeral_eq_Suc length_Suc_conv)

lemma commit_rom_loop_all:
  assumes "length rom = 8" and "length (OneWireROM s) = 8"
  shows "commit_rom_loop 8 0 rom s = s\<lparr>OneWireROM := rom\<rparr>"
proof -
  from length8_cases [OF assms(1)] obtain a b c d e f g h
    where r: "rom = [a, b, c, d, e, f, g, h]" by blast
  from length8_cases [OF assms(2)] obtain a' b' c' d' e' f' g' h'
    where o: "OneWireROM s = [a', b', c', d', e', f', g', h']" by blast
  show ?thesis
    by (simp add: r o numeral_eq_Suc OneWireROMSetByte_def)
qed

lemma OneWireSingleReadROM_eq:
  "OneWireSingleReadROM s =
     (case receive_bytes 8 (snd (OneWireSendByte 0x33 (snd (OneWireReset (uart s))))) of
        (bs, u3) \<Rightarrow>
          if length bs = 8 \<and> foldl crc8_byte 0 bs = 0
          then (True, commit_rom_loop 8 0 bs (s\<lparr>crc8 := 0, uart := u3\<rparr>))
          else (False, s\<lparr>crc8 := foldl crc8_byte 0 bs, uart := u3\<rparr>))"
proof -
  have len: "0 + 8 \<le> length (replicate 8 (0 :: u8))" by simp
  show ?thesis
    unfolding OneWireSingleReadROM_def
    by (simp add: read_rom_loop_receive [OF len] ClearCrc8_def GetCrc8_def Let_def
             split: prod.splits)
qed

text \<open>
  C4. \<open>OneWireSingleReadROM\<close> resets the bus, sends \<open>0x33\<close>, clears the CRC and reads
  up to 8 bytes, feeding each into the CRC. It returns true exactly when all 8 reads
  succeeded and the CRC over them is 0, and then the identifier is those 8 bytes in
  read order; otherwise it returns false.
\<close>

theorem OneWireSingleReadROM_result:
  assumes "length (OneWireROM s) = 8"
    and "receive_bytes 8 (snd (OneWireSendByte 0x33 (snd (OneWireReset (uart s))))) = (bs, u3)"
  shows "OneWireSingleReadROM s =
           (if length bs = 8 \<and> foldl crc8_byte 0 bs = 0
            then (True, s\<lparr>OneWireROM := bs, crc8 := 0, uart := u3\<rparr>)
            else (False, s\<lparr>crc8 := foldl crc8_byte 0 bs, uart := u3\<rparr>))"
  using assms by (simp add: OneWireSingleReadROM_eq commit_rom_loop_all)

text \<open>
  With one device \<open>28 01 02 03 04 05 06 9E\<close> on the bus the call succeeds and the
  identifier is the device's.
\<close>

theorem OneWireSingleReadROM_result_witness:
  "OneWireSingleReadROM
     (state_ready (replicate 8 0) (single_read_bus [0x28, 1, 2, 3, 4, 5, 6, 0x9E])) =
   (True,
    (state_ready (replicate 8 0) (single_read_bus [0x28, 1, 2, 3, 4, 5, 6, 0x9E]))
      \<lparr>OneWireROM := [0x28, 1, 2, 3, 4, 5, 6, 0x9E], crc8 := 0,
       uart := snd (receive_bytes 8 (snd (OneWireSendByte 0x33 (snd (OneWireReset
                 (uart_ready (single_read_bus [0x28, 1, 2, 3, 4, 5, 6, 0x9E])))))))\<rparr>)"
proof -
  let ?rx = "single_read_bus [0x28, 1, 2, 3, 4, 5, 6, 0x9E]"
  let ?s = "state_ready (replicate 8 0) ?rx"
  let ?r = "receive_bytes 8 (snd (OneWireSendByte 0x33 (snd (OneWireReset (uart ?s)))))"
  have u: "uart ?s = uart_ready ?rx" by (simp add: state_ready_def)
  have len: "length (OneWireROM ?s) = 8" by (simp add: state_ready_def)
  have bs: "fst ?r = [0x28, 1, 2, 3, 4, 5, 6, 0x9E]" by code_simp
  have crc: "foldl crc8_byte 0 [0x28, 1, 2, 3, 4, 5, 6, 0x9E] = 0" by code_simp
  from OneWireSingleReadROM_result [OF len, of "fst ?r" "snd ?r"] bs crc u
  show ?thesis by simp
qed

text \<open>
  C10. When \<open>OneWireSingleReadROM\<close> returns false, the identifier (and the search
  cursor) are what they were before the call.
\<close>

theorem OneWireSingleReadROM_failure_keeps_rom:
  assumes "OneWireSingleReadROM s = (False, s')"
  shows "OneWireROM s' = OneWireROM s
       \<and> OneWireLastDiscrepancy s' = OneWireLastDiscrepancy s
       \<and> OneWireLastDeviceFlag s' = OneWireLastDeviceFlag s
       \<and> OneWireLastFamilyDiscrepancy s' = OneWireLastFamilyDiscrepancy s"
  using assms by (auto simp: OneWireSingleReadROM_eq split: prod.splits if_splits)

text \<open>
  A device that answers \<open>28 01 02 03 04 05 06 9F\<close>, the last byte corrupted: all 8
  bytes are read, the CRC is not 0, and the identifier found earlier stays.
\<close>

theorem OneWireSingleReadROM_failure_keeps_rom_witness:
  "fst (OneWireSingleReadROM
     (state_ready [0x28, 0xFF, 0x4B, 0x96, 0x64, 0x16, 0x04, 0x25]
        (single_read_bus [0x28, 1, 2, 3, 4, 5, 6, 0x9F]))) = False
   \<and> OneWireROM (snd (OneWireSingleReadROM
     (state_ready [0x28, 0xFF, 0x4B, 0x96, 0x64, 0x16, 0x04, 0x25]
        (single_read_bus [0x28, 1, 2, 3, 4, 5, 6, 0x9F])))) =
     [0x28, 0xFF, 0x4B, 0x96, 0x64, 0x16, 0x04, 0x25]"
proof -
  let ?s = "state_ready [0x28, 0xFF, 0x4B, 0x96, 0x64, 0x16, 0x04, 0x25]
              (single_read_bus [0x28, 1, 2, 3, 4, 5, 6, 0x9F])"
  have f: "fst (OneWireSingleReadROM ?s) = False" by code_simp
  have e: "OneWireSingleReadROM ?s = (fst (OneWireSingleReadROM ?s), snd (OneWireSingleReadROM ?s))"
    by (rule surjective_pairing)
  have r: "OneWireROM ?s = [0x28, 0xFF, 0x4B, 0x96, 0x64, 0x16, 0x04, 0x25]"
    by (simp add: state_ready_def)
  from OneWireSingleReadROM_failure_keeps_rom [OF e [unfolded f]]
  have "OneWireROM (snd (OneWireSingleReadROM ?s)) = OneWireROM ?s" by (rule conjunct1)
  with f r show ?thesis by (simp only:)
qed

section \<open>Addressing: Match ROM and Skip ROM\<close>

lemma match_loop_frame:
  "OneWireROM (match_loop k i s) = OneWireROM s
   \<and> OneWireLastDiscrepancy (match_loop k i s) = OneWireLastDiscrepancy s
   \<and> OneWireLastDeviceFlag (match_loop k i s) = OneWireLastDeviceFlag s
   \<and> OneWireLastFamilyDiscrepancy (match_loop k i s) = OneWireLastFamilyDiscrepancy s"
  by (induction k arbitrary: i s) (auto simp: Let_def split: prod.splits)

text \<open>
  \<open>OneWireMatchROM\<close> and \<open>OneWireSkipROM\<close> leave the search cursor alone, and
  they return true whatever the reset and the sends report.
\<close>

lemma addressing_always_true:
  "fst (OneWireMatchROM s) = True \<and> fst (OneWireSkipROM s) = True
   \<and> OneWireLastDiscrepancy (snd (OneWireMatchROM s)) = OneWireLastDiscrepancy s
   \<and> OneWireLastDeviceFlag (snd (OneWireMatchROM s)) = OneWireLastDeviceFlag s
   \<and> OneWireLastFamilyDiscrepancy (snd (OneWireMatchROM s)) = OneWireLastFamilyDiscrepancy s
   \<and> OneWireLastDiscrepancy (snd (OneWireSkipROM s)) = OneWireLastDiscrepancy s
   \<and> OneWireLastDeviceFlag (snd (OneWireSkipROM s)) = OneWireLastDeviceFlag s
   \<and> OneWireLastFamilyDiscrepancy (snd (OneWireSkipROM s)) = OneWireLastFamilyDiscrepancy s"
  by (simp add: OneWireMatchROM_def OneWireSkipROM_def Let_def match_loop_frame
           split: prod.splits)

text \<open>
  C6 at a bus without devices, holding the identifier \<open>28 01 02 03 04 05 06 9E\<close>: the
  reset reports \<open>NoDevices\<close>, and still \<open>OneWireMatchROM\<close> returns true after sending
  the command and the 8 identifier bytes (73 bytes on the line with the reset pulse),
  and \<open>OneWireSkipROM\<close> returns true after sending its command (9 bytes).
\<close>

theorem addressing_ignores_reset_failure:
  "fst (OneWireReset (uart_ready (no_device_bus [0x55, 0x28, 1, 2, 3, 4, 5, 6, 0x9E]))) = NoDevices
   \<and> fst (OneWireMatchROM (state_ready [0x28, 1, 2, 3, 4, 5, 6, 0x9E]
             (no_device_bus [0x55, 0x28, 1, 2, 3, 4, 5, 6, 0x9E]))) = True
   \<and> length (tx_log (uart (snd (OneWireMatchROM (state_ready [0x28, 1, 2, 3, 4, 5, 6, 0x9E]
             (no_device_bus [0x55, 0x28, 1, 2, 3, 4, 5, 6, 0x9E])))))) = 73
   \<and> fst (OneWireReset (uart_ready (no_device_bus [0xCC]))) = NoDevices
   \<and> fst (OneWireSkipROM (state_ready [0x28, 1, 2, 3, 4, 5, 6, 0x9E] (no_device_bus [0xCC]))) = True
   \<and> length (tx_log (uart (snd (OneWireSkipROM (state_ready [0x28, 1, 2, 3, 4, 5, 6, 0x9E]
             (no_device_bus [0xCC])))))) = 9"
  by code_simp

section \<open>One bit on the line\<close>

lemma OneWireReadBit_cases:
  assumes "OneWireReadBit u = (v, u')"
  shows "(v = - 1 \<or> v = 0 \<or> v = 1) \<and> (v \<noteq> - 1 \<longrightarrow> uartId u' \<noteq> - 1 \<and> uartBaud u' = 115200)"
proof -
  obtain ok u1 where sp: "OneWireUartSetSpeed 115200 u = (ok, u1)"
    by (cases "OneWireUartSetSpeed 115200 u")
  obtain sent u2 where wr: "OneWireUartWriteByte 0xFF False u1 = (sent, u2)"
    by (cases "OneWireUartWriteByte 0xFF False u1")
  obtain b u3 where rd: "OneWireUartReadByte u2 = (b, u3)"
    by (cases "OneWireUartReadByte u2")
  note f = OneWireUartSetSpeed_frame [OF sp] OneWireUartWriteByte_frame [OF wr]
    OneWireUartReadByte_frame [OF rd]
  from assms sp wr rd f show ?thesis
    by (auto simp: OneWireReadBit_def OneWireUartPulseReadBit_def split: if_splits)
qed

lemma OneWireWriteBit_sent:
  assumes "uartId u \<noteq> - 1" and "uartBaud u = 115200" and "OneWireWriteBit v p u = (ok, u')"
  shows "tx_log u' = tx_log u @ [(115200, if v \<noteq> 0 then 0xFF else 0x00)]"
proof -
  let ?d = "if v \<noteq> 0 then 0xFF else 0x00 :: int"
  obtain sent u2 where wr: "OneWireUartWriteByte (word_of_int ?d) p u = (sent, u2)"
    by (cases "OneWireUartWriteByte (word_of_int ?d) p u")
  obtain b u3 where rd: "OneWireUartReadByte u2 = (b, u3)"
    by (cases "OneWireUartReadByte u2")
  note f = OneWireUartWriteByte_frame [OF wr] OneWireUartReadByte_frame [OF rd]
  from assms wr rd f show ?thesis
    by (auto simp: OneWireWriteBit_def OneWireUartPulseWriteBit_def OneWireUartSetSpeed_same
             split: if_splits)
qed

section \<open>The search loop\<close>

lemma search_step_frame:
  assumes "search_step l s = (c, l', s')"
  shows "length (OneWireROM s') = length (OneWireROM s)
       \<and> OneWireLastDiscrepancy s' = OneWireLastDiscrepancy s
       \<and> OneWireLastDeviceFlag s' = OneWireLastDeviceFlag s
       \<and> (OneWireLastFamilyDiscrepancy s' = OneWireLastFamilyDiscrepancy s
          \<or> OneWireLastFamilyDiscrepancy s' \<le> 8)"
proof -
  have le: "unat w < 9 \<Longrightarrow> w \<le> 8" for w :: u8
    by (simp add: word_le_nat_alt)
  from assms show ?thesis
    by (auto simp: search_step_def pick_direction_def store_direction_def advance_def
                   OneWireROMSetByte_def DoCrc8_def Let_def le
             split: prod.splits if_splits)
qed

lemma pick_direction_frame:
  assumes "pick_direction a b l s = (d, l1, s1)"
  shows "id_bit_number l1 = id_bit_number l \<and> rom_byte_number l1 = rom_byte_number l
       \<and> rom_byte_mask l1 = rom_byte_mask l
       \<and> (last_zero l1 = last_zero l \<or> last_zero l1 = unat (id_bit_number l))
       \<and> OneWireROM s1 = OneWireROM s \<and> crc8 s1 = crc8 s \<and> uart s1 = uart s"
  using assms by (auto simp: pick_direction_def Let_def split: if_splits)

lemma store_direction_eq:
  "store_direction d l s =
     s\<lparr>OneWireROM := (OneWireROM s)[rom_byte_number l :=
          (if d = 1 then OneWireROM s ! rom_byte_number l OR rom_byte_mask l
           else OneWireROM s ! rom_byte_number l AND NOT (rom_byte_mask l))]\<rparr>"
  by (simp add: store_direction_def OneWireROMSetByte_def OneWireROMGetByte_def)

lemma shift_mask: "push_bit 1 (2 ^ j :: u8) = 0 \<longleftrightarrow> j mod 8 = 7" if "j < 8"
proof -
  have e: "push_bit 1 (2 ^ j :: u8) = 2 ^ Suc j" by (simp add: push_bit_eq_mult)
  have z: "(2 ^ Suc j :: u8) = 0 \<longleftrightarrow> 8 \<le> Suc j"
    using exp_eq_zero_iff [where 'a = 8 and n = "Suc j"] by simp
  show ?thesis unfolding e z using that by auto
qed

lemma advance_inv:
  assumes "id_bit_number l = of_nat (Suc k)" and "rom_byte_number l = k div 8"
    and "rom_byte_mask l = 2 ^ (k mod 8)" and "advance l s = (l', s')"
  shows "id_bit_number l' = of_nat (Suc (Suc k)) \<and> rom_byte_number l' = Suc k div 8
       \<and> rom_byte_mask l' = 2 ^ (Suc k mod 8) \<and> last_zero l' = last_zero l
       \<and> OneWireROM s' = OneWireROM s \<and> uart s' = uart s
       \<and> crc8 s' = (if k mod 8 = 7 then crc8_byte (crc8 s) (OneWireROM s ! (k div 8))
                    else crc8 s)"
proof -
  have j: "k mod 8 < 8" by simp
  note sm = shift_mask [OF j]
  show ?thesis
  proof (cases "k mod 8 = 7")
    case True
    then have "Suc k mod 8 = 0" and "Suc k div 8 = Suc (k div 8)"
      by (simp_all add: mod_Suc div_Suc)
    with assms True sm show ?thesis
      by (auto simp: advance_def Let_def DoCrc8_def OneWireROMGetByte_def split: if_splits)
  next
    case False
    then have "Suc k mod 8 = Suc (k mod 8)" and "Suc k div 8 = k div 8"
      by (simp_all add: mod_Suc div_Suc)
    with assms False sm show ?thesis
      by (auto simp: advance_def Let_def push_bit_eq_mult split: if_splits)
  qed
qed

lemma advance_frame:
  assumes "advance l s = (l', s')"
  shows "last_zero l' = last_zero l \<and> OneWireROM s' = OneWireROM s \<and> uart s' = uart s
       \<and> OneWireLastFamilyDiscrepancy s' = OneWireLastFamilyDiscrepancy s"
  using assms by (auto simp: advance_def Let_def DoCrc8_def split: if_splits)

lemma search_step_inv:
  assumes inv: "loop_inv k l s" and k: "k < 64" and st: "search_step l s = (True, l', s')"
  shows "loop_inv (Suc k) l' s'"
proof -
  obtain id_bit u1 where r1: "OneWireReadBit (uart s) = (id_bit, u1)"
    by (cases "OneWireReadBit (uart s)")
  obtain cmp_id_bit u2 where r2: "OneWireReadBit u1 = (cmp_id_bit, u2)"
    by (cases "OneWireReadBit u1")
  obtain d l3 s3 where pd: "pick_direction id_bit cmp_id_bit l (s\<lparr>uart := u2\<rparr>) = (d, l3, s3)"
    by (cases "pick_direction id_bit cmp_id_bit l (s\<lparr>uart := u2\<rparr>)")
  obtain ok u5 where wb: "OneWireWriteBit (uint d) False (uart (store_direction d l3 s3)) = (ok, u5)"
    by (cases "OneWireWriteBit (uint d) False (uart (store_direction d l3 s3))")
  let ?s5 = "(store_direction d l3 s3)\<lparr>uart := u5\<rparr>"
  from st r1 r2 pd wb have adv: "advance l3 ?s5 = (l', s')"
    by (auto simp: search_step_def Let_def split: if_splits prod.splits)
  note pf = pick_direction_frame [OF pd]
  from inv have i: "id_bit_number l = of_nat (Suc k)" "rom_byte_number l = k div 8"
      "rom_byte_mask l = 2 ^ (k mod 8)" "last_zero l \<le> k" "length (OneWireROM s) = 8"
      "crc8 s = foldl crc8_byte 0 (take (k div 8) (OneWireROM s))"
    by (simp_all add: loop_inv_def)
  have un: "unat (id_bit_number l) = Suc k"
    using k i(1) by (simp add: unat_of_nat del: of_nat_Suc)
  have lz: "last_zero l3 \<le> Suc k" using pf i(4) un by auto
  have rom5: "OneWireROM ?s5 = (OneWireROM s)[k div 8 :=
          (if d = 1 then OneWireROM s ! (k div 8) OR 2 ^ (k mod 8)
           else OneWireROM s ! (k div 8) AND NOT (2 ^ (k mod 8)))]"
    using pf i by (simp add: store_direction_eq)
  have crc5: "crc8 ?s5 = crc8 s" using pf by (simp add: store_direction_eq)
  have il3: "id_bit_number l3 = of_nat (Suc k)" "rom_byte_number l3 = k div 8"
      "rom_byte_mask l3 = 2 ^ (k mod 8)"
    using pf i by simp_all
  note a = advance_inv [OF il3 adv]
  have kd: "k div 8 < 8" using k by simp
  have len: "length (OneWireROM s') = 8" using a rom5 i(5) by simp
  have crc: "crc8 s' = foldl crc8_byte 0 (take (Suc k div 8) (OneWireROM s'))"
  proof (cases "k mod 8 = 7")
    case True
    then have sk: "Suc k div 8 = Suc (k div 8)" by (simp add: div_Suc mod_Suc)
    have "take (Suc (k div 8)) (OneWireROM s') =
            take (k div 8) (OneWireROM s) @ [OneWireROM s' ! (k div 8)]"
      using a rom5 kd i(5) by (simp add: take_Suc_conv_app_nth)
    with a True sk crc5 i(6) show ?thesis by simp
  next
    case False
    then have sk: "Suc k div 8 = k div 8" by (simp add: div_Suc mod_Suc)
    with a False crc5 i(6) rom5 show ?thesis by simp
  qed
  from a lz len crc show ?thesis by (simp add: loop_inv_def)
qed

lemma search_step_break:
  assumes "search_step l s = (False, l', s')"
  shows "id_bit_number l' = id_bit_number l
       \<and> (last_zero l' = last_zero l \<or> last_zero l' = unat (id_bit_number l))"
  using assms
  by (auto simp: search_step_def Let_def split: if_splits prod.splits
           dest!: pick_direction_frame)

lemma search_loop_frame:
  "search_loop l s = (l', s') \<Longrightarrow>
     length (OneWireROM s') = length (OneWireROM s)
     \<and> OneWireLastDiscrepancy s' = OneWireLastDiscrepancy s
     \<and> OneWireLastDeviceFlag s' = OneWireLastDeviceFlag s
     \<and> (OneWireLastFamilyDiscrepancy s' = OneWireLastFamilyDiscrepancy s
        \<or> OneWireLastFamilyDiscrepancy s' \<le> 8)"
proof (induction l s arbitrary: l' s' rule: search_loop.induct)
  case (1 l s)
  obtain c l1 s1 where st: "search_step l s = (c, l1, s1)"
    by (cases "search_step l s")
  note f = search_step_frame [OF st]
  show ?case
  proof (cases "c \<and> rom_byte_number l1 < 8")
    case True
    then have c: "c = True" and lt: "rom_byte_number l1 < 8" by simp_all
    with st "1.prems" have "search_loop l1 s1 = (l', s')"
      by (simp add: search_loop.simps [of l s])
    from "1.IH" [OF st [symmetric] c refl lt this] f show ?thesis by auto
  next
    case False
    with st "1.prems" have "l' = l1" "s' = s1"
      by (auto simp: search_loop.simps [of l s] split: if_splits bool.splits)
    with f show ?thesis by simp
  qed
qed

lemma id_below_65: "k < 64 \<Longrightarrow> (of_nat (Suc k) :: u8) < 65"
  by (simp add: word_less_nat_alt unat_of_nat del: of_nat_Suc)

lemma unat_id: "k < 64 \<Longrightarrow> unat (of_nat (Suc k) :: u8) = Suc k"
  by (simp add: unat_of_nat del: of_nat_Suc)

lemma search_loop_inv:
  "loop_inv k l s \<Longrightarrow> k < 64 \<Longrightarrow> search_loop l s = (l', s') \<Longrightarrow>
     length (OneWireROM s') = 8 \<and> last_zero l' \<le> 64
     \<and> (id_bit_number l' < 65
        \<or> (id_bit_number l' = 65 \<and> rom_byte_number l' = 8
           \<and> crc8 s' = foldl crc8_byte 0 (OneWireROM s')))"
proof (induction l s arbitrary: k l' s' rule: search_loop.induct)
  case (1 l s)
  obtain c l1 s1 where st: "search_step l s = (c, l1, s1)"
    by (cases "search_step l s")
  from "1.prems"(1) have i: "id_bit_number l = of_nat (Suc k)" "last_zero l \<le> k"
      "length (OneWireROM s) = 8"
    by (simp_all add: loop_inv_def)
  show ?case
  proof (cases c)
    case False
    with st "1.prems" have e: "l' = l1" "s' = s1"
      by (auto simp: search_loop.simps [of l s])
    from st False have b: "search_step l s = (False, l1, s1)" by simp
    from search_step_break [OF b] search_step_frame [OF b] i e
      id_below_65 [OF "1.prems"(2)] unat_id [OF "1.prems"(2)] "1.prems"(2)
    show ?thesis by auto
  next
    case True
    with st have t: "search_step l s = (True, l1, s1)" by simp
    note n = search_step_inv [OF "1.prems"(1) "1.prems"(2) t]
    show ?thesis
    proof (cases "rom_byte_number l1 < 8")
      case lt: True
      with t "1.prems" have sl: "search_loop l1 s1 = (l', s')"
        by (simp add: search_loop.simps [of l s])
      from n lt have k': "Suc k < 64" by (simp add: loop_inv_def)
      from "1.IH" [OF t [symmetric] refl refl lt n k' sl] show ?thesis by simp
    next
      case ge: False
      with t "1.prems" have e: "l' = l1" "s' = s1"
        by (auto simp: search_loop.simps [of l s])
      from n ge "1.prems"(2) have k: "Suc k = 64" by (simp add: loop_inv_def)
      with n e show ?thesis by (simp add: loop_inv_def)
    qed
  qed
qed

lemma init_inv:
  "length (OneWireROM s) = 8 \<Longrightarrow> loop_inv 0 init_locals ((ClearCrc8 s)\<lparr>uart := u\<rparr>)"
  by (simp add: loop_inv_def init_locals_def ClearCrc8_def)

lemma pass_config_inv:
  assumes "length (OneWireROM s0) = 8" and "pass_config alarmSearch s0 l s"
  shows "\<exists>k<64. loop_inv k l s"
  using assms(2)
proof (induction rule: pass_config.induct)
  case (start u1 sent u2)
  from init_inv [OF assms(1), of u2] show ?case by (intro exI [of _ 0]) simp
next
  case (continue l s l' s')
  then obtain k where k: "k < 64" "loop_inv k l s" by auto
  from search_step_inv [OF k(2) k(1) continue(2)] continue(3)
  have "loop_inv (Suc k) l' s'" "Suc k < 64" by (simp_all add: loop_inv_def)
  then show ?case by blast
qed

text \<open>
  The configurations of \<open>pass_config\<close> lie on the path of the loop: the pass ends as
  the loop run from any of them ends.
\<close>

lemma pass_config_on_path:
  assumes "pass_config alarmSearch s0 l s"
  shows "OneWireSearchROM alarmSearch s0 =
           search_finish (case search_loop l s of (l', s') \<Rightarrow> search_commit l' s')"
  using assms
proof (induction rule: pass_config.induct)
  case (start u1 sent u2)
  then show ?case
    by (simp add: OneWireSearchROM_def Let_def ClearCrc8_def split: prod.splits)
next
  case (continue l s l' s')
  then show ?case by (simp add: search_loop.simps [of l s])
qed

lemma OneWireSearchROM_frame:
  "length (OneWireROM (snd (OneWireSearchROM a s))) = length (OneWireROM s)
   \<and> (OneWireLastFamilyDiscrepancy (snd (OneWireSearchROM a s)) = OneWireLastFamilyDiscrepancy s
      \<or> OneWireLastFamilyDiscrepancy (snd (OneWireSearchROM a s)) \<le> 8)"
proof -
  have "length (OneWireROM (snd (search_finish (search_commit l' s')))) = length (OneWireROM s)
      \<and> (OneWireLastFamilyDiscrepancy (snd (search_finish (search_commit l' s'))) =
            OneWireLastFamilyDiscrepancy s
         \<or> OneWireLastFamilyDiscrepancy (snd (search_finish (search_commit l' s'))) \<le> 8)"
    if "search_loop l ((ClearCrc8 s)\<lparr>uart := u\<rparr>) = (l', s')" for l u l' s'
    using search_loop_frame [OF that]
    by (auto simp: search_finish_def search_commit_def Let_def ClearCrc8_def split: if_splits)
  then show ?thesis
    by (auto simp: OneWireSearchROM_def Let_def ClearCrc8_def search_finish_def
             split: prod.splits if_splits)
qed

lemma small_of_nat_eq_0: "n \<le> 64 \<Longrightarrow> (of_nat n :: u8) = 0 \<longleftrightarrow> n = 0"
  by (simp add: word_of_nat_eq_0_iff dvd_def) arith

section \<open>Passes on the test buses\<close>

lemma first_pass_run:
  "case OneWireSearchROM False first_pass_start of
     (found, s') \<Rightarrow>
       found \<and> OneWireLastDiscrepancy s' = 4 \<and> OneWireLastFamilyDiscrepancy s' = 4
       \<and> OneWireLastDeviceFlag s' = 0 \<and> OneWireROM s' = [0x10, 1, 2, 3, 4, 5, 6, 0x7B]"
  by code_simp

lemma verify_pass_run:
  "case OneWireSearchROM False
          (verify_start\<lparr>OneWireLastDiscrepancy := 0x40, OneWireLastDeviceFlag := 0,
                         OneWireLastFamilyDiscrepancy := 0\<rparr>) of
     (found, s') \<Rightarrow> found \<and> OneWireROM s' = [0x28, 1, 2, 3, 4, 5, 6, 0x9E]"
  by code_simp

lemma collision_head_config:
  assumes "fst (OneWireReset (uart_ready (two_device_bus rom 0))) = DevicePresent"
  shows "pass_config False (collision_start stored rom ld) init_locals
           (collision_head stored rom ld)"
proof -
  let ?s0 = "collision_start stored rom ld"
  have f0: "OneWireLastDeviceFlag ?s0 = 0"
    by (simp add: collision_start_def state_ready_def)
  have u: "uart ?s0 = uart_ready (two_device_bus rom 0)"
    by (simp add: collision_start_def state_ready_def)
  from assms have f1: "OneWireReset (uart ?s0) = (DevicePresent, snd (OneWireReset (uart ?s0)))"
    unfolding u by (simp add: prod_eq_iff)
  have f2: "OneWireSendByte (if False then 0xEC else 0xF0) (snd (OneWireReset (uart ?s0))) =
              (fst (OneWireSendByte 0xF0 (snd (OneWireReset (uart ?s0)))),
               snd (OneWireSendByte 0xF0 (snd (OneWireReset (uart ?s0)))))"
    by simp
  from pass_config.start [OF f0 f1 f2] show ?thesis
    by (simp only: collision_head_def u)
qed

section \<open>Collisions\<close>

text \<open>
  C1. At every configuration of a pass where both the bit and its complement read 0,
  at the 1-based position \<open>n = id_bit_number\<close> (between 1 and 64): the direction is the
  one the specification prescribes (the stored identifier bit when \<open>n\<close> is below
  \<open>OneWireLastDiscrepancy\<close>, 1 when they are equal, 0 otherwise); it is the byte written
  to the line (\<open>0xFF\<close> for 1, \<open>0x00\<close> for 0, at 115200 baud) and the bit stored in the
  identifier at position \<open>n\<close>; and when it is 0, \<open>last_zero\<close> becomes \<open>n\<close>, and
  \<open>OneWireLastFamilyDiscrepancy\<close> becomes \<open>n\<close> if \<open>n \<le> 8\<close>. A direction of 1 leaves
  both as they were.
\<close>

theorem collision_direction:
  assumes len: "length (OneWireROM s0) = 8"
    and pc: "pass_config alarmSearch s0 l s"
    and r1: "OneWireReadBit (uart s) = (0, u1)"
    and r2: "OneWireReadBit u1 = (0, u2)"
    and st: "search_step l s = (c, l', s')"
  shows "1 \<le> unat (id_bit_number l) \<and> unat (id_bit_number l) \<le> 64
       \<and> (let n = unat (id_bit_number l);
               direction = prescribed_direction n (unat (OneWireLastDiscrepancy s)) (OneWireROM s)
           in tx_log (uart s') = tx_log u2 @ [(115200, if direction then 0xFF else 0x00)]
            \<and> rom_bit (OneWireROM s') n = direction
            \<and> last_zero l' = (if direction then last_zero l else n)
            \<and> OneWireLastFamilyDiscrepancy s' =
                (if \<not> direction \<and> n \<le> 8 then of_nat n else OneWireLastFamilyDiscrepancy s))"
proof -
  from pass_config_inv [OF len pc] obtain k where k: "k < 64" and inv: "loop_inv k l s"
    by blast
  from inv have i: "id_bit_number l = of_nat (Suc k)" "rom_byte_number l = k div 8"
      "rom_byte_mask l = 2 ^ (k mod 8)" "length (OneWireROM s) = 8"
    by (simp_all add: loop_inv_def)
  have un: "unat (id_bit_number l) = Suc k" using i(1) unat_id [OF k] by simp
  have kd: "k div 8 < length (OneWireROM s)" using k i(4) by simp
  define dir where "dir = prescribed_direction (Suc k) (unat (OneWireLastDiscrepancy s)) (OneWireROM s)"
  define d :: u8 where "d = (if dir then 1 else 0)"
  have lt: "id_bit_number l < OneWireLastDiscrepancy s \<longleftrightarrow> Suc k < unat (OneWireLastDiscrepancy s)"
    by (simp add: word_less_nat_alt un)
  have eq: "id_bit_number l = OneWireLastDiscrepancy s \<longleftrightarrow> Suc k = unat (OneWireLastDiscrepancy s)"
    using un by (auto simp: word_unat_eq_iff)
  have bt: "OneWireROM s ! (k div 8) AND 2 ^ (k mod 8) > 0 \<longleftrightarrow> rom_bit (OneWireROM s) (Suc k)"
    by (simp add: word_greater_zero_iff and_exp_eq_0_iff_not_bit rom_bit_def)
  define l3 where "l3 = (if dir then l else l\<lparr>last_zero := Suc k\<rparr>)"
  define s3 where "s3 = (if \<not> dir \<and> Suc k < 9
                         then s\<lparr>uart := u2, OneWireLastFamilyDiscrepancy := of_nat (Suc k)\<rparr>
                         else s\<lparr>uart := u2\<rparr>)"
  have ps: "pick_direction 0 0 l (s\<lparr>uart := u2\<rparr>) = (d, l3, s3)"
    by (auto simp: pick_direction_def Let_def OneWireROMGetByte_def i(2,3) lt eq bt un
                   d_def dir_def l3_def s3_def prescribed_direction_def)
  define s4 where "s4 = store_direction d l3 s3"
  have u4: "uart s4 = u2" by (simp add: s4_def store_direction_eq s3_def)
  have rom4: "OneWireROM s4 = (OneWireROM s)[k div 8 :=
               (if dir then OneWireROM s ! (k div 8) OR 2 ^ (k mod 8)
                else OneWireROM s ! (k div 8) AND NOT (2 ^ (k mod 8)))]"
    by (auto simp: s4_def store_direction_eq s3_def l3_def d_def i(2,3))
  have lfd4: "OneWireLastFamilyDiscrepancy s4 =
                (if \<not> dir \<and> Suc k \<le> 8 then of_nat (Suc k) else OneWireLastFamilyDiscrepancy s)"
    by (auto simp: s4_def store_direction_eq s3_def)
  have bit4: "rom_bit (OneWireROM s4) (Suc k) = dir"
    using kd by (simp add: rom4 rom_bit_def bit_simps)
  obtain ok u5 where wb: "OneWireWriteBit (uint d) False u2 = (ok, u5)"
    by (cases "OneWireWriteBit (uint d) False u2")
  from OneWireReadBit_cases [OF r2] have rdy: "uartId u2 \<noteq> - 1" "uartBaud u2 = 115200"
    by simp_all
  have tx: "tx_log u5 = tx_log u2 @ [(115200, if dir then 0xFF else 0x00)]"
    using OneWireWriteBit_sent [OF rdy wb] by (simp add: d_def)
  have step: "search_step l s =
                (if \<not> ok then (False, l3, s4\<lparr>uart := u5\<rparr>)
                 else let (l6, s6) = advance l3 (s4\<lparr>uart := u5\<rparr>) in (True, l6, s6))"
    by (simp add: search_step_def r1 r2 ps Let_def s4_def [symmetric] u4 wb)
  have fin: "uart s' = u5 \<and> OneWireROM s' = OneWireROM s4 \<and> last_zero l' = last_zero l3
           \<and> OneWireLastFamilyDiscrepancy s' = OneWireLastFamilyDiscrepancy s4"
  proof (cases ok)
    case False
    with st step show ?thesis by auto
  next
    case True
    obtain l6 s6 where adv: "advance l3 (s4\<lparr>uart := u5\<rparr>) = (l6, s6)"
      by (cases "advance l3 (s4\<lparr>uart := u5\<rparr>)")
    with st step True have "l' = l6" "s' = s6" by simp_all
    with advance_frame [OF adv] show ?thesis by simp
  qed
  have lz: "last_zero l3 = (if dir then last_zero l else Suc k)"
    by (simp add: l3_def)
  from fin tx bit4 lz lfd4 un k show ?thesis
    by (simp add: Let_def dir_def [symmetric])
qed

text \<open>
  Three collisions at position 1: in a first pass (cursor at 0) the direction is 0 and
  is recorded; with the last discrepancy at 1 it is 1; with the last discrepancy at 5
  the stored bit (1, of the family code \<open>0x11\<close>) is replayed.
\<close>

theorem collision_direction_witness:
  "(case search_step init_locals
           (collision_head (replicate 8 0) [0x10, 1, 2, 3, 4, 5, 6, 0x7B] 0) of
      (c, l', s') \<Rightarrow>
        last_zero l' = 1 \<and> OneWireLastFamilyDiscrepancy s' = 1
        \<and> rom_bit (OneWireROM s') 1 = False \<and> last (tx_log (uart s')) = (115200, 0x00))
   \<and> (case search_step init_locals
           (collision_head (replicate 8 0) [0x11, 1, 2, 3, 4, 5, 6, 0x7B] 1) of
      (c, l', s') \<Rightarrow>
        last_zero l' = 0 \<and> OneWireLastFamilyDiscrepancy s' = 0
        \<and> rom_bit (OneWireROM s') 1 = True \<and> last (tx_log (uart s')) = (115200, 0xFF))
   \<and> (case search_step init_locals
           (collision_head [0x11, 1, 2, 3, 4, 5, 6, 0x7B] [0x11, 1, 2, 3, 4, 5, 6, 0x7B] 5) of
      (c, l', s') \<Rightarrow>
        last_zero l' = 0 \<and> OneWireLastFamilyDiscrepancy s' = 0
        \<and> rom_bit (OneWireROM s') 1 = True \<and> last (tx_log (uart s')) = (115200, 0xFF))"
proof -
  have gen: "case search_step init_locals (collision_head stored rom ld) of
               (c, l', s') \<Rightarrow>
                 last_zero l' = (if prescribed_direction 1 (unat ld) stored then 0 else 1)
                 \<and> OneWireLastFamilyDiscrepancy s' =
                     (if prescribed_direction 1 (unat ld) stored then 0 else 1)
                 \<and> rom_bit (OneWireROM s') 1 = prescribed_direction 1 (unat ld) stored
                 \<and> last (tx_log (uart s')) =
                     (115200, if prescribed_direction 1 (unat ld) stored then 0xFF else 0x00)"
    if len: "length stored = 8"
      and p: "fst (OneWireReset (uart_ready (two_device_bus rom 0))) = DevicePresent"
      and r1: "fst (OneWireReadBit
                 (snd (OneWireSendByte 0xF0 (snd (OneWireReset (uart_ready (two_device_bus rom 0))))))) = 0"
      and r2: "fst (OneWireReadBit (snd (OneWireReadBit
                 (snd (OneWireSendByte 0xF0 (snd (OneWireReset (uart_ready (two_device_bus rom 0))))))))) = 0"
    for stored rom ld
  proof -
    let ?h = "collision_head stored rom ld"
    obtain c l' s' where st: "search_step init_locals ?h = (c, l', s')"
      by (cases "search_step init_locals ?h")
    have len0: "length (OneWireROM (collision_start stored rom ld)) = 8"
      using len by (simp add: collision_start_def state_ready_def)
    have u: "uart ?h =
               snd (OneWireSendByte 0xF0 (snd (OneWireReset (uart_ready (two_device_bus rom 0)))))"
      by (simp add: collision_head_def)
    have R1: "OneWireReadBit (uart ?h) = (0, snd (OneWireReadBit (uart ?h)))"
      using r1 unfolding u by (simp add: prod_eq_iff)
    have R2: "OneWireReadBit (snd (OneWireReadBit (uart ?h))) =
                (0, snd (OneWireReadBit (snd (OneWireReadBit (uart ?h)))))"
      using r2 unfolding u by (simp add: prod_eq_iff)
    have h: "OneWireLastDiscrepancy ?h = ld" "OneWireROM ?h = stored"
        "OneWireLastFamilyDiscrepancy ?h = 0"
      by (simp_all add: collision_head_def collision_start_def state_ready_def ClearCrc8_def)
    have n: "unat (id_bit_number init_locals) = 1" "last_zero init_locals = 0"
      by (simp_all add: init_locals_def)
    from collision_direction [OF len0 collision_head_config [OF p] R1 R2 st]
    show ?thesis by (simp add: st n h Let_def)
  qed
  have a: "fst (OneWireReset (uart_ready (two_device_bus [0x10, 1, 2, 3, 4, 5, 6, 0x7B] 0))) = DevicePresent"
    "fst (OneWireReadBit (snd (OneWireSendByte 0xF0 (snd (OneWireReset
       (uart_ready (two_device_bus [0x10, 1, 2, 3, 4, 5, 6, 0x7B] 0))))))) = 0"
    "fst (OneWireReadBit (snd (OneWireReadBit (snd (OneWireSendByte 0xF0 (snd (OneWireReset
       (uart_ready (two_device_bus [0x10, 1, 2, 3, 4, 5, 6, 0x7B] 0))))))))) = 0"
    by code_simp+
  have b: "fst (OneWireReset (uart_ready (two_device_bus [0x11, 1, 2, 3, 4, 5, 6, 0x7B] 0))) = DevicePresent"
    "fst (OneWireReadBit (snd (OneWireSendByte 0xF0 (snd (OneWireReset
       (uart_ready (two_device_bus [0x11, 1, 2, 3, 4, 5, 6, 0x7B] 0))))))) = 0"
    "fst (OneWireReadBit (snd (OneWireReadBit (snd (OneWireSendByte 0xF0 (snd (OneWireReset
       (uart_ready (two_device_bus [0x11, 1, 2, 3, 4, 5, 6, 0x7B] 0))))))))) = 0"
    by code_simp+
  have d: "prescribed_direction 1 (unat (0 :: u8)) (replicate 8 0) = False"
    "prescribed_direction 1 (unat (1 :: u8)) (replicate 8 0) = True"
    "prescribed_direction 1 (unat (5 :: u8)) [0x11, 1, 2, 3, 4, 5, 6, 0x7B] = True"
    by code_simp+
  have l: "length (replicate 8 (0 :: u8)) = 8" "length [0x11, 1, 2, 3, 4, 5, 6, 0x7B :: u8] = 8"
    by simp_all
  from gen [OF l(1) a, of 0] gen [OF l(1) b, of 1] gen [OF l(2) b, of 5]
  show ?thesis unfolding d by (simp only: if_True if_False simp_thms)
qed

section \<open>The end of a pass\<close>

text \<open>
  C2. When \<open>OneWireSearchROM\<close> returns true, the cursor allowed a pass
  (\<open>OneWireLastDeviceFlag\<close> was 0), the reset found a device, and the loop ended with all
  64 bit positions done (\<open>id_bit_number = 65\<close>, byte counter 8) and a CRC8 accumulator
  of 0, which is the CRC8 over the 8 identifier bytes. The state returned is the one
  lines 201-211 make of the state after the loop: \<open>OneWireLastDiscrepancy\<close> is the
  pass's \<open>last_zero\<close>, and \<open>OneWireLastDeviceFlag\<close> is 1 when that is 0 and 0
  otherwise. And whenever a loop ends with all 64 positions done and a CRC8 of 0, lines
  201-211 set the cursor in that way (the flag keeps its value when \<open>last_zero\<close> is not
  0).
\<close>

theorem search_success:
  assumes len: "length (OneWireROM s) = 8"
    and res: "OneWireSearchROM alarmSearch s = (True, s')"
  shows "(\<exists>u1 sent u2 l s3.
           OneWireLastDeviceFlag s = 0
         \<and> OneWireReset (uart s) = (DevicePresent, u1)
         \<and> OneWireSendByte (if alarmSearch then 0xEC else 0xF0) u1 = (sent, u2)
         \<and> search_loop init_locals ((ClearCrc8 s)\<lparr>uart := u2\<rparr>) = (l, s3)
         \<and> id_bit_number l = 65 \<and> rom_byte_number l = 8
         \<and> GetCrc8 s3 = 0 \<and> foldl crc8_byte 0 (OneWireROM s3) = 0
         \<and> last_zero l \<le> 64
         \<and> search_commit l s3 = (True, s')
         \<and> s' = s3\<lparr>OneWireLastDiscrepancy := of_nat (last_zero l),
                   OneWireLastDeviceFlag := (if last_zero l = 0 then 1 else 0)\<rparr>)
       \<and> (65 \<le> id_bit_number l0 \<and> GetCrc8 t = 0 \<and> last_zero l0 \<le> 64 \<longrightarrow>
            search_commit l0 t =
              (True, t\<lparr>OneWireLastDiscrepancy := of_nat (last_zero l0),
                        OneWireLastDeviceFlag :=
                          (if last_zero l0 = 0 then 1 else OneWireLastDeviceFlag t)\<rparr>))"
    (is "?success \<and> ?valid")
proof -
  have valid: ?valid
    using small_of_nat_eq_0 [of "last_zero l0"]
    by (auto simp: search_commit_def Let_def not_less)
  have ldf: "OneWireLastDeviceFlag s = 0"
    using res by (auto simp: OneWireSearchROM_def Let_def ClearCrc8_def search_finish_def
                       split: if_splits)
  obtain r u1 where rs: "OneWireReset (uart s) = (r, u1)"
    by (cases "OneWireReset (uart s)")
  have r: "r = DevicePresent"
    using res ldf rs by (auto simp: OneWireSearchROM_def Let_def ClearCrc8_def split: if_splits)
  obtain sent u2 where sb: "OneWireSendByte (if alarmSearch then 0xEC else 0xF0) u1 = (sent, u2)"
    by (cases "OneWireSendByte (if alarmSearch then 0xEC else 0xF0) u1")
  obtain l s3 where sl: "search_loop init_locals ((ClearCrc8 s)\<lparr>uart := u2\<rparr>) = (l, s3)"
    by (cases "search_loop init_locals ((ClearCrc8 s)\<lparr>uart := u2\<rparr>)")
  from res ldf rs r sb sl have fin: "search_finish (search_commit l s3) = (True, s')"
    by (simp add: OneWireSearchROM_def Let_def ClearCrc8_def)
  then have com: "search_commit l s3 = (True, s')"
    by (auto simp: search_finish_def Let_def split: prod.splits if_splits)
  then have ok: "\<not> id_bit_number l < 65" "GetCrc8 s3 = 0"
    by (auto simp: search_commit_def Let_def split: if_splits)
  from search_loop_inv [OF init_inv [OF len] _ sl] ok
  have li: "last_zero l \<le> 64" "id_bit_number l = 65" "rom_byte_number l = 8"
      "crc8 s3 = foldl crc8_byte 0 (OneWireROM s3)"
    by auto
  from search_loop_frame [OF sl] ldf have ldf3: "OneWireLastDeviceFlag s3 = 0"
    by (simp add: ClearCrc8_def)
  have s': "s' = s3\<lparr>OneWireLastDiscrepancy := of_nat (last_zero l),
                    OneWireLastDeviceFlag := (if last_zero l = 0 then 1 else 0)\<rparr>"
    using com ok ldf3 small_of_nat_eq_0 [OF li(1)]
    by (auto simp: search_commit_def Let_def)
  from ldf rs r sb sl li ok com s' have ?success
    by (auto simp: GetCrc8_def)
  then show ?thesis using valid by (rule conjI)
qed

text \<open>
  A first pass on the bus with the two devices succeeds with the identifier
  \<open>10 01 02 03 04 05 06 7B\<close>; its last 0 was chosen at position 4, which becomes the
  last discrepancy, and the device flag stays 0.
\<close>

theorem search_success_witness:
  "fst (OneWireSearchROM False first_pass_start) = True
   \<and> (\<exists>l s3. search_commit l s3 = (True, snd (OneWireSearchROM False first_pass_start))
        \<and> id_bit_number l = 65 \<and> last_zero l = 4
        \<and> GetCrc8 s3 = 0 \<and> foldl crc8_byte 0 (OneWireROM s3) = 0)
   \<and> OneWireLastDiscrepancy (snd (OneWireSearchROM False first_pass_start)) = 4
   \<and> OneWireLastDeviceFlag (snd (OneWireSearchROM False first_pass_start)) = 0"
proof -
  let ?x = "OneWireSearchROM False first_pass_start"
  from first_pass_run have f: "fst ?x = True"
    and ld: "OneWireLastDiscrepancy (snd ?x) = 4"
    and ldf: "OneWireLastDeviceFlag (snd ?x) = 0"
    by (simp_all add: case_prod_unfold)
  from f have eq: "?x = (True, snd ?x)" by (simp add: prod_eq_iff)
  have len: "length (OneWireROM first_pass_start) = 8"
    by (simp add: first_pass_start_def state_ready_def)
  from search_success [OF len eq, THEN conjunct1] obtain l s3 where
    com: "search_commit l s3 = (True, snd ?x)"
    and idb: "id_bit_number l = 65"
    and crc: "GetCrc8 s3 = 0" "foldl crc8_byte 0 (OneWireROM s3) = 0"
    and lz: "last_zero l \<le> 64"
    and s': "snd ?x = s3\<lparr>OneWireLastDiscrepancy := of_nat (last_zero l),
                        OneWireLastDeviceFlag := (if last_zero l = 0 then 1 else 0)\<rparr>"
    by blast
  have "OneWireLastDiscrepancy (snd ?x) = of_nat (last_zero l)" by (subst s') simp
  with ld have "(of_nat (last_zero l) :: u8) = 4" by simp
  then have "unat (of_nat (last_zero l) :: u8) = 4" by simp
  with lz have "last_zero l = 4" by (simp add: unat_of_nat)
  with f com idb crc ld ldf show ?thesis by blast
qed

text \<open>
  C3, amended. A call of \<open>OneWireSearchROM\<close> made while \<open>OneWireLastDeviceFlag\<close> is
  set returns false without touching the line or the identifier, and resets the three
  cursor fields to 0 (the flag included), so that the next call starts a new
  enumeration.
\<close>

theorem search_after_last_device:
  assumes "OneWireLastDeviceFlag s \<noteq> 0"
  shows "OneWireSearchROM alarmSearch s =
           (False, s\<lparr>crc8 := 0, OneWireLastDiscrepancy := 0, OneWireLastDeviceFlag := 0,
                      OneWireLastFamilyDiscrepancy := 0\<rparr>)"
  using assms by (simp add: OneWireSearchROM_def ClearCrc8_def search_finish_def)

theorem search_after_last_device_witness:
  "OneWireSearchROM False after_last_device =
     (False, after_last_device\<lparr>crc8 := 0, OneWireLastDiscrepancy := 0,
               OneWireLastDeviceFlag := 0, OneWireLastFamilyDiscrepancy := 0\<rparr>)"
proof -
  have "OneWireLastDeviceFlag after_last_device \<noteq> 0"
    by (simp add: after_last_device_def state_ready_def)
  then show ?thesis by (rule search_after_last_device)
qed

text \<open>
  C3 as stated fails there: the call returns false, but the flag goes from 1 to 0 and
  the family discrepancy from 4 to 0.
\<close>

theorem search_after_last_device_counterexample:
  "OneWireLastDeviceFlag after_last_device = 1
   \<and> OneWireLastFamilyDiscrepancy after_last_device = 4
   \<and> fst (OneWireSearchROM False after_last_device) = False
   \<and> OneWireLastDeviceFlag (snd (OneWireSearchROM False after_last_device)) = 0
   \<and> OneWireLastFamilyDiscrepancy (snd (OneWireSearchROM False after_last_device)) = 0"
  by (simp add: after_last_device_def state_ready_def OneWireSearchROM_def ClearCrc8_def
        search_finish_def)

section \<open>Verification of the current identifier\<close>

lemma restore_loop_gen:
  "i + k = length rom \<Longrightarrow> length (OneWireROM s) = length rom \<Longrightarrow>
   restore_loop k i rom v s =
     (v \<and> drop i (OneWireROM s) = drop i rom,
      s\<lparr>OneWireROM := take i (OneWireROM s) @ drop i rom\<rparr>)"
proof (induction k arbitrary: i v s)
  case 0
  then show ?case by simp
next
  case (Suc k)
  from Suc.prems have i: "i < length rom" "i < length (OneWireROM s)" by simp_all
  have dr: "drop i rom = rom ! i # drop (Suc i) rom"
    using i by (simp add: Cons_nth_drop_Suc)
  have ds: "drop i (OneWireROM s) = OneWireROM s ! i # drop (Suc i) (OneWireROM s)"
    using i by (simp add: Cons_nth_drop_Suc)
  show ?case
  proof (cases "rom ! i = OneWireROM s ! i")
    case True
    have tk: "take (Suc i) (OneWireROM s) = take i (OneWireROM s) @ [rom ! i]"
      using i True by (simp add: take_Suc_conv_app_nth)
    from Suc.prems True show ?thesis
      by (simp add: Suc.IH OneWireROMGetByte_def dr ds tk)
  next
    case False
    let ?s = "OneWireROMSetByte i (rom ! i) s"
    have tk: "take (Suc i) (OneWireROM ?s) = take i (OneWireROM s) @ [rom ! i]"
      using i by (simp add: OneWireROMSetByte_def take_Suc_conv_app_nth)
    have len: "length (OneWireROM ?s) = length rom"
      using Suc.prems by (simp add: OneWireROMSetByte_def)
    from Suc.prems False show ?thesis
      using Suc.IH [of "Suc i" ?s False] len
      by (simp add: OneWireROMGetByte_def dr ds tk) (simp add: OneWireROMSetByte_def)
  qed
qed

text \<open>
  C7. \<open>OneWireVerifyROM\<close> runs one pass of \<open>OneWireSearchROM\<close> from the cursor
  (\<open>0x40\<close>, flag 0, family discrepancy 0); it returns true exactly when that pass
  returned true and left the identifier equal to the one before the call; and whatever
  the outcome, the identifier and the three cursor fields are afterwards what they were
  before the call (the line and the CRC accumulator are as the pass left them).
\<close>

theorem OneWireVerifyROM_restores:
  assumes len: "length (OneWireROM s) = 8"
    and pass: "OneWireSearchROM False
                 (s\<lparr>OneWireLastDiscrepancy := 0x40, OneWireLastDeviceFlag := 0,
                    OneWireLastFamilyDiscrepancy := 0\<rparr>) = (found, s2)"
  shows "OneWireVerifyROM s =
           (found \<and> OneWireROM s2 = OneWireROM s,
            s2\<lparr>OneWireROM := OneWireROM s,
               OneWireLastDeviceFlag := OneWireLastDeviceFlag s,
               OneWireLastDiscrepancy := OneWireLastDiscrepancy s,
               OneWireLastFamilyDiscrepancy := OneWireLastFamilyDiscrepancy s\<rparr>)"
proof -
  let ?s1 = "s\<lparr>OneWireLastDiscrepancy := 0x40, OneWireLastDeviceFlag := 0,
               OneWireLastFamilyDiscrepancy := 0\<rparr>"
  have snap: "map (\<lambda>i. OneWireROMGetByte i s) [0..<8] = OneWireROM s"
    using map_nth [of "OneWireROM s"] len by (simp add: OneWireROMGetByte_def)
  from OneWireSearchROM_frame [of False ?s1] pass len
  have len2: "length (OneWireROM s2) = length (OneWireROM s)" by simp
  have rl: "restore_loop 8 0 (OneWireROM s) found s2 =
              (found \<and> OneWireROM s2 = OneWireROM s, s2\<lparr>OneWireROM := OneWireROM s\<rparr>)"
    using restore_loop_gen [of 0 8 "OneWireROM s" s2 found] len len2 by simp
  show ?thesis
    by (simp add: OneWireVerifyROM_def Let_def snap pass rl)
qed

text \<open>
  On the bus with the two devices, with the identifier \<open>28 01 02 03 04 05 06 9E\<close>
  current and the cursor at (4, 0, 4), the verification finds the device again: it
  returns true, and the identifier and the cursor are as before.
\<close>

theorem OneWireVerifyROM_restores_witness:
  "fst (OneWireVerifyROM verify_start) = True
   \<and> OneWireROM (snd (OneWireVerifyROM verify_start)) = [0x28, 1, 2, 3, 4, 5, 6, 0x9E]
   \<and> OneWireLastDiscrepancy (snd (OneWireVerifyROM verify_start)) = 4
   \<and> OneWireLastDeviceFlag (snd (OneWireVerifyROM verify_start)) = 0
   \<and> OneWireLastFamilyDiscrepancy (snd (OneWireVerifyROM verify_start)) = 4"
proof -
  let ?p = "OneWireSearchROM False
              (verify_start\<lparr>OneWireLastDiscrepancy := 0x40, OneWireLastDeviceFlag := 0,
                             OneWireLastFamilyDiscrepancy := 0\<rparr>)"
  have v: "OneWireROM verify_start = [0x28, 1, 2, 3, 4, 5, 6, 0x9E]"
      "OneWireLastDiscrepancy verify_start = 4" "OneWireLastDeviceFlag verify_start = 0"
      "OneWireLastFamilyDiscrepancy verify_start = 4"
    by (simp_all add: verify_start_def state_ready_def)
  have len: "length (OneWireROM verify_start) = 8" by (simp add: v)
  have eq: "?p = (fst ?p, snd ?p)" by simp
  from verify_pass_run have r: "fst ?p = True" "OneWireROM (snd ?p) = [0x28, 1, 2, 3, 4, 5, 6, 0x9E]"
    by (simp_all add: case_prod_unfold)
  from OneWireVerifyROM_restores [OF len eq] show ?thesis
    by (simp add: v r)
qed

section \<open>The family discrepancy stays within the first byte\<close>

lemma clear_rom_frame:
  "OneWireLastFamilyDiscrepancy (fold (\<lambda>i. OneWireROMSetByte i 0) xs s) =
     OneWireLastFamilyDiscrepancy s"
  by (induction xs arbitrary: s) (simp_all add: OneWireROMSetByte_def)

lemma OneWireVerifyROM_lfd:
  "OneWireLastFamilyDiscrepancy (snd (OneWireVerifyROM s)) = OneWireLastFamilyDiscrepancy s"
  by (simp add: OneWireVerifyROM_def Let_def split: prod.splits)

text \<open>
  C9. In every reachable state \<open>OneWireLastFamilyDiscrepancy\<close> is at most 8.
\<close>

theorem family_discrepancy_bound:
  assumes "reachable s"
  shows "OneWireLastFamilyDiscrepancy s \<le> 8"
  using assms
proof (induction rule: reachable.induct)
  case (initial s)
  then show ?case by simp
next
  case (resetSearch s)
  show ?case by (simp add: OneWireResetSearch_def clear_rom_frame)
next
  case (targetSetup s familyId)
  show ?case
    by (simp add: OneWireTargetSetup_def OneWireResetSearch_def OneWireROMSetByte_def
          clear_rom_frame)
next
  case (searchROM s alarmSearch)
  with OneWireSearchROM_frame [of alarmSearch s] show ?case by auto
next
  case (verifyROM s)
  then show ?case by (simp add: OneWireVerifyROM_lfd)
qed

text \<open>
  After a first pass on the bus with the two devices the family discrepancy is 4,
  within the bound.
\<close>

theorem family_discrepancy_bound_witness:
  "OneWireLastFamilyDiscrepancy (snd (OneWireSearchROM False first_pass_start)) = 4
   \<and> OneWireLastFamilyDiscrepancy (snd (OneWireSearchROM False first_pass_start)) \<le> 8"
proof -
  have "reachable first_pass_start"
    by (rule reachable.initial) (simp_all add: first_pass_start_def state_ready_def)
  then have "reachable (snd (OneWireSearchROM False first_pass_start))"
    by (rule reachable.searchROM)
  from family_discrepancy_bound [OF this] first_pass_run show ?thesis
    by (simp add: case_prod_unfold)
qed

end
